theory Spec2Isabelle
  imports Complex_Main "HOL-Library.Sublist"
begin

section \<open>The aitool SDK (sdk/aitool.py): data model\<close>

text \<open>
  The module is Python. Its values are modelled as follows.
  \<^item> Parameters, results and schemas are JSON-like Python values (\<open>json\<close>). A float is
    represented by the rational number it denotes; rounding is not modelled.
  \<^item> An exception is its class together with \<open>str(e)\<close>. The class decides which
    \<open>except\<close> clause catches it, and \<open>type_name\<close> is \<open>type(e).__name__\<close>.
  \<^item> A tool document is the dict handed to \<open>Tool.__init__\<close>. Every key the module reads
    is an optional field: \<open>None\<close> is an absent key, so that \<open>d[k]\<close> can raise
    \<open>KeyError\<close> and \<open>d.get(k, default)\<close> can fall back. Present values have the
    types the dataclass annotations and the accesses of the module give them.
\<close>

datatype json =
    JNull
  | JBool bool
  | JInt int
  | JFloat rat
  | JStr string
  | JArr "json list"
  | JObj "(string \<times> json) list"

subsection \<open>Exceptions\<close>

text \<open>
  \<open>ToolExecutionError\<close>, \<open>ValidationError\<close>, \<open>TimeoutError\<close> and \<open>RateLimitError\<close>
  are the classes of the module; \<open>JSONSchemaValidationError\<close> is
  \<open>jsonschema.ValidationError\<close> (whose \<open>__name__\<close> is also \<open>ValidationError\<close>);
  \<open>ModuleNotFoundError\<close> is the subclass of \<open>ImportError\<close> that a failed import
  raises; \<open>OtherException n\<close> is any further subclass of \<open>Exception\<close>, named \<open>n\<close>,
  that derives from none of the classes listed.
\<close>

datatype exn_type =
    KeyError
  | ValueError
  | TypeError
  | IndexError
  | ImportError
  | ModuleNotFoundError
  | AttributeError
  | NotImplementedError
  | ToolExecutionError
  | ValidationError
  | TimeoutError
  | RateLimitError
  | JSONSchemaValidationError
  | OtherException string

fun type_name :: "exn_type \<Rightarrow> string" where
  "type_name KeyError = ''KeyError''"
| "type_name ValueError = ''ValueError''"
| "type_name TypeError = ''TypeError''"
| "type_name IndexError = ''IndexError''"
| "type_name ImportError = ''ImportError''"
| "type_name ModuleNotFoundError = ''ModuleNotFoundError''"
| "type_name AttributeError = ''AttributeError''"
| "type_name NotImplementedError = ''NotImplementedError''"
| "type_name ToolExecutionError = ''ToolExecutionError''"
| "type_name ValidationError = ''ValidationError''"
| "type_name TimeoutError = ''TimeoutError''"
| "type_name RateLimitError = ''RateLimitError''"
| "type_name JSONSchemaValidationError = ''ValidationError''"
| "type_name (OtherException n) = n"

datatype exn = Exn (exn_type: exn_type) (exn_str: string)

text \<open>\<open>repr\<close> of a string without quotes or escapes: the string in single quotes.\<close>

definition quote :: "string \<Rightarrow> string" where
  "quote s = CHR 0x27 # s @ [CHR 0x27]"

text \<open>\<open>d[key]\<close> on a dict: \<open>KeyError(key)\<close> when the key is absent.\<close>

definition getitem :: "'a option \<Rightarrow> string \<Rightarrow> exn + 'a" where
  "getitem field key = (case field of None \<Rightarrow> Inl (Exn KeyError (quote key)) | Some v \<Rightarrow> Inr v)"

text \<open>\<open>d.get(key, default)\<close>.\<close>

definition get_default :: "'a option \<Rightarrow> 'a \<Rightarrow> 'a" where
  "get_default field dflt = (case field of None \<Rightarrow> dflt | Some v \<Rightarrow> v)"

subsection \<open>RecoveryStrategy\<close>

datatype RecoveryStrategy =
    RETRY
  | RETRY_WITH_BACKOFF
  | WAIT_AND_RETRY
  | ALTERNATE_TOOL
  | FAIL
  | PROMPT_USER

fun strategy_value :: "RecoveryStrategy \<Rightarrow> string" where
  "strategy_value RETRY = ''retry''"
| "strategy_value RETRY_WITH_BACKOFF = ''retry_with_backoff''"
| "strategy_value WAIT_AND_RETRY = ''wait_and_retry''"
| "strategy_value ALTERNATE_TOOL = ''alternate_tool''"
| "strategy_value FAIL = ''fail''"
| "strategy_value PROMPT_USER = ''prompt_user''"

definition all_strategies :: "RecoveryStrategy list" where
  "all_strategies = [RETRY, RETRY_WITH_BACKOFF, WAIT_AND_RETRY, ALTERNATE_TOOL, FAIL, PROMPT_USER]"

text \<open>
  \<open>RecoveryStrategy(value)\<close>: the lookup of an \<open>Enum\<close> member by value, which raises
  \<open>ValueError\<close> when no member has it.
\<close>

definition RecoveryStrategy_call :: "string \<Rightarrow> exn + RecoveryStrategy" where
  "RecoveryStrategy_call v =
     (case find (\<lambda>m. strategy_value m = v) all_strategies of
        Some m \<Rightarrow> Inr m
      | None \<Rightarrow> Inl (Exn ValueError (quote v @ '' is not a valid RecoveryStrategy'')))"

subsection \<open>Tool documents\<close>

record manifest_doc =
  doc_id :: "string option"
  doc_name :: "string option"
  doc_version :: "string option"
  doc_display_name :: "string option"
  doc_description :: "string option"
  doc_category :: "string option"
  doc_tags :: "string list option"
  doc_provider :: "(string \<times> string) list option"

record recovery_doc =
  doc_strategy :: "string option"
  doc_max_retries :: "int option"
  doc_backoff_ms :: "int list option"
  doc_wait_seconds :: "rat option"
  doc_fallback_tool :: "string option"
  doc_message_to_user :: "string option"

record error_handling_doc =
  doc_error_type :: "string option"
  doc_error_code :: "string option"
  doc_recovery :: "recovery_doc option"

record endpoint_doc =
  endpoint_type :: "string option"
  endpoint_module :: "string option"
  endpoint_function :: "string option"

record returns_doc =
  success_schema :: "json option"

record execution_doc =
  endpoint :: "endpoint_doc option"
  parameters :: "json option"
  returns :: "returns_doc option"

record trigger_doc =
  trigger :: "string option"
  examples :: "string list option"

record usage_guidance_doc =
  when_to_use :: "trigger_doc list option"

record spec_doc =
  doc_manifest :: "manifest_doc option"
  doc_capabilities :: "json option"
  doc_execution :: "execution_doc option"
  doc_usage_guidance :: "usage_guidance_doc option"
  doc_error_handling :: "error_handling_doc list option"

subsection \<open>ToolManifest and ErrorRecovery\<close>

record ToolManifest =
  manifest_id :: string
  manifest_name :: string
  version :: string
  display_name :: "string option"
  description :: string
  category :: string
  tags :: "string list"
  provider :: "(string \<times> string) list"

text \<open>
  \<open>ToolManifest.from_dict\<close>. The keyword arguments are evaluated in the order written, so
  the first absent key among \<open>id\<close>, \<open>name\<close>, \<open>version\<close>, \<open>category\<close> is the one
  the \<open>KeyError\<close> names.
\<close>

definition ToolManifest_from_dict :: "manifest_doc \<Rightarrow> exn + ToolManifest" where
  "ToolManifest_from_dict data =
     (case getitem (doc_id data) ''id'' of Inl e \<Rightarrow> Inl e | Inr i \<Rightarrow>
      case getitem (doc_name data) ''name'' of Inl e \<Rightarrow> Inl e | Inr n \<Rightarrow>
      case getitem (doc_version data) ''version'' of Inl e \<Rightarrow> Inl e | Inr v \<Rightarrow>
      case getitem (doc_category data) ''category'' of Inl e \<Rightarrow> Inl e | Inr c \<Rightarrow>
        Inr \<lparr> manifest_id = i, manifest_name = n, version = v,
              display_name = doc_display_name data,
              description = get_default (doc_description data) '''',
              category = c,
              tags = get_default (doc_tags data) [],
              provider = get_default (doc_provider data) [] \<rparr>)"

record ErrorRecovery =
  error_type :: string
  error_code :: "string option"
  strategy :: RecoveryStrategy
  max_retries :: "int option"
  backoff_ms :: "int list option"
  wait_seconds :: "rat option"
  fallback_tool :: "string option"
  message_to_user :: "string option"

definition ErrorRecovery_from_dict :: "error_handling_doc \<Rightarrow> exn + ErrorRecovery" where
  "ErrorRecovery_from_dict data =
     (case getitem (doc_recovery data) ''recovery'' of Inl e \<Rightarrow> Inl e | Inr recovery_data \<Rightarrow>
      case getitem (doc_error_type data) ''error_type'' of Inl e \<Rightarrow> Inl e | Inr et \<Rightarrow>
      case getitem (doc_strategy recovery_data) ''strategy'' of Inl e \<Rightarrow> Inl e | Inr sv \<Rightarrow>
      case RecoveryStrategy_call sv of Inl e \<Rightarrow> Inl e | Inr st \<Rightarrow>
        Inr \<lparr> error_type = et,
              error_code = doc_error_code data,
              strategy = st,
              max_retries = doc_max_retries recovery_data,
              backoff_ms = doc_backoff_ms recovery_data,
              wait_seconds = doc_wait_seconds recovery_data,
              fallback_tool = doc_fallback_tool recovery_data,
              message_to_user = doc_message_to_user recovery_data \<rparr>)"

text \<open>
  The list comprehension \<open>[ErrorRecovery.from_dict(e) for e in ...]\<close>: the elements
  are converted in order and the first exception ends the comprehension.
\<close>

fun ErrorRecovery_from_dicts :: "error_handling_doc list \<Rightarrow> exn + ErrorRecovery list" where
  "ErrorRecovery_from_dicts [] = Inr []"
| "ErrorRecovery_from_dicts (d # ds) =
     (case ErrorRecovery_from_dict d of Inl e \<Rightarrow> Inl e | Inr h \<Rightarrow>
      case ErrorRecovery_from_dicts ds of Inl e \<Rightarrow> Inl e | Inr hs \<Rightarrow> Inr (h # hs))"

subsection \<open>Tool\<close>

text \<open>
  \<open>'f\<close> is the type of the function objects that the endpoint resolves to.
  \<open>cached_function\<close> is \<open>self._cached_function\<close>, the only field that is ever
  assigned after construction.
\<close>

record 'f Tool =
  spec :: spec_doc
  manifest :: ToolManifest
  capabilities :: json
  execution :: execution_doc
  usage_guidance :: usage_guidance_doc
  error_handlers :: "ErrorRecovery list"
  cached_function :: "'f option"

text \<open>\<open>Tool.__init__\<close>: \<open>Inl\<close> is the exception that leaves the constructor.\<close>

definition Tool_init :: "spec_doc \<Rightarrow> exn + 'f Tool" where
  "Tool_init sp =
     (case getitem (doc_manifest sp) ''manifest'' of Inl e \<Rightarrow> Inl e | Inr md \<Rightarrow>
      case ToolManifest_from_dict md of Inl e \<Rightarrow> Inl e | Inr m \<Rightarrow>
      case getitem (doc_capabilities sp) ''capabilities'' of Inl e \<Rightarrow> Inl e | Inr c \<Rightarrow>
      case getitem (doc_execution sp) ''execution'' of Inl e \<Rightarrow> Inl e | Inr ex \<Rightarrow>
      case getitem (doc_usage_guidance sp) ''usage_guidance'' of Inl e \<Rightarrow> Inl e | Inr ug \<Rightarrow>
      case ErrorRecovery_from_dicts (get_default (doc_error_handling sp) []) of
        Inl e \<Rightarrow> Inl e
      | Inr hs \<Rightarrow>
        Inr \<lparr> spec = sp, manifest = m, capabilities = c, execution = ex,
              usage_guidance = ug, error_handlers = hs, cached_function = None \<rparr>)"

section \<open>The environment and the effects of an execution\<close>

text \<open>
  What the module takes from outside is a parameter of the model:
  \<^item> \<open>jsonschema_installed\<close>: whether \<open>from jsonschema import validate, ValidationError\<close>
    succeeded when the module was loaded;
  \<^item> \<open>jsonschema_validate instance schema\<close>: \<open>None\<close> when \<open>jsonschema.validate\<close>
    returns, \<open>Some e\<close> when it raises \<open>e\<close> (a \<open>JSONSchemaValidationError\<close> for an
    instance that does not conform);
  \<^item> \<open>import_attr module function\<close>: \<open>getattr(importlib.import_module(module), function)\<close>,
    the object found or the exception raised;
  \<^item> \<open>attr_truthy f\<close>: the truth value \<open>bool(f)\<close> of such an object, which is what
    \<open>if self._cached_function\<close> tests. It is \<open>True\<close> for every function object; an
    object whose \<open>__bool__\<close> or \<open>__len__\<close> says otherwise is falsy;
  \<^item> \<open>call func params w\<close>: the outcome of \<open>func(**params)\<close> in the world \<open>w\<close> (whatever
    the callable reads and writes) and the world it leaves. A callable raises instances of
    \<open>Exception\<close>.
  The observable effects are collected, oldest first, in the \<open>trace\<close>: every
  \<open>time.sleep\<close>, every import of the endpoint, every invocation of the callable and
  every log record (an f-string is the list of its literal and formatted parts).
\<close>

datatype py_instance = Document spec_doc | Value json

datatype level = INFO | WARNING | ERROR

datatype piece = Txt string | Num int

datatype event =
    Slept rat
  | Imported string string
  | Invoked json
  | Logged level "piece list"

record ('f, 'w) env =
  jsonschema_installed :: bool
  jsonschema_validate :: "py_instance \<Rightarrow> json \<Rightarrow> exn option"
  import_attr :: "string \<Rightarrow> string \<Rightarrow> exn + 'f"
  attr_truthy :: "'f \<Rightarrow> bool"
  call :: "'f \<Rightarrow> json \<Rightarrow> 'w \<Rightarrow> (exn + json) \<times> 'w"

record ('f, 'w) state =
  self :: "'f Tool"
  world :: 'w
  trace :: "event list"

text \<open>What a trace shows: the sleeps, the invocations and the imports, each in order.\<close>

fun slept :: "event list \<Rightarrow> rat list" where
  "slept [] = []"
| "slept (ev # evs) = (case ev of Slept d \<Rightarrow> d # slept evs | _ \<Rightarrow> slept evs)"

fun invoked :: "event list \<Rightarrow> json list" where
  "invoked [] = []"
| "invoked (ev # evs) = (case ev of Invoked p \<Rightarrow> p # invoked evs | _ \<Rightarrow> invoked evs)"

fun imported :: "event list \<Rightarrow> (string \<times> string) list" where
  "imported [] = []"
| "imported (ev # evs) = (case ev of Imported m f \<Rightarrow> (m, f) # imported evs | _ \<Rightarrow> imported evs)"

definition emit :: "event \<Rightarrow> ('f, 'w) state \<Rightarrow> ('f, 'w) state" where
  "emit ev s = s\<lparr>trace := trace s @ [ev]\<rparr>"

definition logger :: "level \<Rightarrow> piece list \<Rightarrow> ('f, 'w) state \<Rightarrow> ('f, 'w) state" where
  "logger lvl msg s = emit (Logged lvl msg) s"

text \<open>\<open>time.sleep(secs)\<close> raises \<open>ValueError\<close> for a negative length.\<close>

definition time_sleep :: "rat \<Rightarrow> ('f, 'w) state \<Rightarrow> exn + ('f, 'w) state" where
  "time_sleep secs s =
     (if secs < 0 then Inl (Exn ValueError ''sleep length must be non-negative'')
      else Inr (emit (Slept secs) s))"

text \<open>\<open>xs[i]\<close> on a list: a negative index counts from the end.\<close>

definition py_index :: "'a list \<Rightarrow> int \<Rightarrow> exn + 'a" where
  "py_index xs i =
     (let n = int (length xs); j = (if i < 0 then n + i else i)
      in if 0 \<le> j \<and> j < n then Inr (xs ! nat j)
         else Inl (Exn IndexError ''list index out of range''))"

text \<open>
  \<open>v or d\<close> for an optional number and for an optional list or string: \<open>None\<close>, zero
  and the empty sequence are falsy.
\<close>

definition num_or :: "'a::zero option \<Rightarrow> 'a \<Rightarrow> 'a" where
  "num_or v d = (case v of None \<Rightarrow> d | Some x \<Rightarrow> if x = 0 then d else x)"

definition list_or :: "'a list option \<Rightarrow> 'a list \<Rightarrow> 'a list" where
  "list_or v d = (case v of None \<Rightarrow> d | Some x \<Rightarrow> if x = [] then d else x)"

fun truthy :: "json \<Rightarrow> bool" where
  "truthy JNull = False"
| "truthy (JBool b) = b"
| "truthy (JInt n) = (n \<noteq> 0)"
| "truthy (JFloat x) = (x \<noteq> 0)"
| "truthy (JStr s) = (s \<noteq> [])"
| "truthy (JArr xs) = (xs \<noteq> [])"
| "truthy (JObj kvs) = (kvs \<noteq> [])"

section \<open>Validation\<close>

text \<open>
  The module-level \<open>validate\<close>: the one of \<open>jsonschema\<close>, or the fallback
  \<open>def validate(*args, **kwargs): pass\<close> when the import failed. In the fallback,
  \<open>JSONSchemaValidationError\<close> is bound to \<open>Exception\<close>, so the \<open>except\<close> clauses
  naming it catch every exception.
\<close>

definition validate :: "('f, 'w) env \<Rightarrow> py_instance \<Rightarrow> json \<Rightarrow> exn option" where
  "validate env inst schema =
     (if jsonschema_installed env then jsonschema_validate env inst schema else None)"

definition is_JSONSchemaValidationError :: "('f, 'w) env \<Rightarrow> exn \<Rightarrow> bool" where
  "is_JSONSchemaValidationError env e =
     (if jsonschema_installed env then exn_type e = JSONSchemaValidationError else True)"

definition validate_spec ::
  "('f, 'w) env \<Rightarrow> json option \<Rightarrow> ('f, 'w) state \<Rightarrow> (exn + bool) \<times> ('f, 'w) state" where
  "validate_spec env schema s =
     (case schema of
        None \<Rightarrow> (Inr True, s)
      | Some sch \<Rightarrow>
          if truthy sch then
            (case validate env (Document (spec (self s))) sch of
               None \<Rightarrow>
                 (Inr True,
                  logger INFO [Txt ''Tool '', Txt (manifest_name (manifest (self s))),
                               Txt '' validated successfully''] s)
             | Some e \<Rightarrow>
                 if is_JSONSchemaValidationError env e
                 then (Inl (Exn ValidationError (''Invalid tool specification: '' @ exn_str e)), s)
                 else (Inl e, s))
          else (Inr True, s))"

definition validate_input :: "('f, 'w) env \<Rightarrow> json \<Rightarrow> ('f, 'w) state \<Rightarrow> exn + bool" where
  "validate_input env params s =
     (case getitem (parameters (execution (self s))) ''parameters'' of
        Inl e \<Rightarrow> Inl e
      | Inr param_schema \<Rightarrow>
          (case validate env (Value params) param_schema of
             None \<Rightarrow> Inr True
           | Some e \<Rightarrow>
               if is_JSONSchemaValidationError env e
               then Inl (Exn ValidationError (''Invalid input parameters: '' @ exn_str e))
               else Inl e))"

definition validate_output ::
  "('f, 'w) env \<Rightarrow> json \<Rightarrow> ('f, 'w) state \<Rightarrow> (exn + bool) \<times> ('f, 'w) state" where
  "validate_output env result s =
     (case returns (execution (self s)) of
        None \<Rightarrow> (Inr True, s)
      | Some r \<Rightarrow>
          (case success_schema r of
             None \<Rightarrow> (Inr True, s)
           | Some schema \<Rightarrow>
               (case validate env (Value result) schema of
                  None \<Rightarrow> (Inr True, s)
                | Some e \<Rightarrow>
                    if is_JSONSchemaValidationError env e
                    then (Inr False,
                          logger WARNING [Txt ''Output validation failed: '', Txt (exn_str e)] s)
                    else (Inl e, s))))"

section \<open>Execution and error recovery\<close>

text \<open>
  \<open>Tool._load_function\<close> (a name cannot start with an underscore here).
  \<open>resolve_endpoint\<close> is what the method does after its first statement: it reads the
  endpoint, imports the function and assigns it to the cache.
\<close>

definition resolve_endpoint ::
  "('f, 'w) env \<Rightarrow> ('f, 'w) state \<Rightarrow> (exn + 'f) \<times> ('f, 'w) state" where
  "resolve_endpoint env s =
     (case getitem (endpoint (execution (self s))) ''endpoint'' of
        Inl e \<Rightarrow> (Inl e, s)
      | Inr ep \<Rightarrow>
     (case getitem (endpoint_type ep) ''type'' of
        Inl e \<Rightarrow> (Inl e, s)
      | Inr ty \<Rightarrow>
        if ty = ''python_function'' then
          (case getitem (endpoint_module ep) ''module'' of
             Inl e \<Rightarrow> (Inl e, s)
           | Inr module_name \<Rightarrow>
          (case getitem (endpoint_function ep) ''function'' of
             Inl e \<Rightarrow> (Inl e, s)
           | Inr function_name \<Rightarrow>
             (let s1 = emit (Imported module_name function_name) s in
              case import_attr env module_name function_name of
                Inr f \<Rightarrow> (Inr f, s1\<lparr>self := (self s1)\<lparr>cached_function := Some f\<rparr>\<rparr>)
              | Inl e \<Rightarrow>
                  if exn_type e \<in> {ImportError, ModuleNotFoundError, AttributeError}
                  then (Inl (Exn ToolExecutionError
                              (''Could not load function '' @ module_name @ ''.'' @
                               function_name @ '': '' @ exn_str e)), s1)
                  else (Inl e, s1))))
        else (Inl (Exn NotImplementedError (''Protocol '' @ ty @ '' not yet supported'')), s)))"

text \<open>
  The first statement, \<open>if self._cached_function: return self._cached_function\<close>, is a
  truth test: the cached object is returned when it is set and truthy, and an unset or
  falsy cache goes on to the resolution.
\<close>

definition load_function :: "('f, 'w) env \<Rightarrow> ('f, 'w) state \<Rightarrow> (exn + 'f) \<times> ('f, 'w) state" where
  "load_function env s =
     (case cached_function (self s) of
        Some f \<Rightarrow> if attr_truthy env f then (Inr f, s) else resolve_endpoint env s
      | None \<Rightarrow> resolve_endpoint env s)"

text \<open>
  The body of the \<open>try\<close> statement of \<open>Tool.execute\<close>: the call of the function and
  the validation of its result, whose verdict is dropped.
\<close>

definition invoke ::
  "('f, 'w) env \<Rightarrow> 'f \<Rightarrow> json \<Rightarrow> bool \<Rightarrow> ('f, 'w) state \<Rightarrow> (exn + json) \<times> ('f, 'w) state" where
  "invoke env func params validate_output_flag s =
     (let s1 = logger INFO [Txt ''Executing tool: '', Txt (manifest_name (manifest (self s)))] s;
          s2 = emit (Invoked params) s1;
          (out, w) = call env func params (world s2);
          s3 = s2\<lparr>world := w\<rparr>
      in case out of
           Inl e \<Rightarrow> (Inl e, s3)
         | Inr result \<Rightarrow>
             (case (if validate_output_flag then validate_output env result s3
                    else (Inr True, s3)) of
                (Inl e, s4) \<Rightarrow> (Inl e, s4)
              | (Inr _, s4) \<Rightarrow>
                  (Inr result,
                   logger INFO [Txt ''Tool '', Txt (manifest_name (manifest (self s4))),
                                Txt '' executed successfully''] s4)))"

text \<open>
  The test of the search loop of \<open>Tool._handle_error\<close>,
  \<open>h.error_code == error_type or h.error_type in str(error)\<close>, where \<open>error_type\<close>
  is \<open>type(error).__name__\<close> and \<open>in\<close> on strings is the substring test.
\<close>

definition handler_matches :: "ErrorRecovery \<Rightarrow> exn \<Rightarrow> bool" where
  "handler_matches h error \<longleftrightarrow>
     error_code h = Some (type_name (exn_type error)) \<or> sublist (error_type h) (exn_str error)"

text \<open>The loop itself: it stops at the first handler that passes the test.\<close>

fun find_handler :: "ErrorRecovery list \<Rightarrow> exn \<Rightarrow> ErrorRecovery option" where
  "find_handler [] error = None"
| "find_handler (h # hs) error =
     (if handler_matches h error then Some h else find_handler hs error)"

text \<open>
  \<open>Tool.execute\<close>, \<open>Tool._handle_error\<close> and \<open>Tool._retry_with_backoff\<close> call each
  other; \<open>retry_loop\<close> is the \<open>for attempt in range(max_retries)\<close> loop, which returns
  \<open>None\<close> when the range is exhausted, and \<open>retry_attempt\<close> is the body of its
  \<open>try\<close> statement. The result is the value returned (\<open>Inr\<close>) or
  the exception raised (\<open>Inl\<close>), with the state left behind.
\<close>

function execute ::
    "('f, 'w) env \<Rightarrow> json \<Rightarrow> bool \<Rightarrow> bool \<Rightarrow> bool \<Rightarrow> ('f, 'w) state
       \<Rightarrow> (exn + json) \<times> ('f, 'w) state"
  and handle_error ::
    "('f, 'w) env \<Rightarrow> exn \<Rightarrow> json \<Rightarrow> ('f, 'w) state \<Rightarrow> (exn + json) \<times> ('f, 'w) state"
  and retry_with_backoff ::
    "('f, 'w) env \<Rightarrow> json \<Rightarrow> ErrorRecovery \<Rightarrow> ('f, 'w) state
       \<Rightarrow> (exn + json) \<times> ('f, 'w) state"
  and retry_loop ::
    "('f, 'w) env \<Rightarrow> json \<Rightarrow> int \<Rightarrow> int list \<Rightarrow> nat \<Rightarrow> ('f, 'w) state
       \<Rightarrow> (exn + json) \<times> ('f, 'w) state"
  and retry_attempt ::
    "('f, 'w) env \<Rightarrow> json \<Rightarrow> int \<Rightarrow> int list \<Rightarrow> nat \<Rightarrow> ('f, 'w) state
       \<Rightarrow> (exn + json) \<times> ('f, 'w) state"
where
  "execute env params validate_input_flag validate_output_flag handle_errors s =
     (case (if validate_input_flag then validate_input env params s else Inr True) of
        Inl e \<Rightarrow> (Inl e, s)
      | Inr _ \<Rightarrow>
     (case load_function env s of
        (Inl e, s1) \<Rightarrow> (Inl e, s1)
      | (Inr func, s1) \<Rightarrow>
     (case invoke env func params validate_output_flag s1 of
        (Inr result, s2) \<Rightarrow> (Inr result, s2)
      | (Inl e, s2) \<Rightarrow>
          if handle_errors then handle_error env e params s2 else (Inl e, s2))))"
| "handle_error env error params s =
     (let error_type_name = type_name (exn_type error) in
      case find_handler (error_handlers (self s)) error of
        None \<Rightarrow>
          (Inl error, logger ERROR [Txt ''No error handler found for '', Txt error_type_name] s)
      | Some handler \<Rightarrow>
         (let s1 = logger INFO [Txt ''Handling error with strategy: '',
                                Txt (strategy_value (strategy handler))] s
          in if strategy handler = RETRY_WITH_BACKOFF then
               retry_with_backoff env params handler s1
             else if strategy handler = WAIT_AND_RETRY then
               (let s2 = (if list_or (message_to_user handler) [] \<noteq> []
                          then logger INFO [Txt (list_or (message_to_user handler) [])] s1
                          else s1)
                in case time_sleep (num_or (wait_seconds handler) 1) s2 of
                     Inl e \<Rightarrow> (Inl e, s2)
                   | Inr s3 \<Rightarrow> execute env params True True False s3)
             else if strategy handler = PROMPT_USER then
               (Inl error,
                logger WARNING [Txt (list_or (message_to_user handler) (exn_str error))] s1)
             else if strategy handler = FAIL then (Inl error, s1)
             else (Inl error, s1)))"
| "retry_with_backoff env params handler s =
     (let max_retries_v = num_or (max_retries handler) 3;
          backoff_ms_v = list_or (backoff_ms handler) [1000, 2000, 4000]
      in retry_loop env params max_retries_v backoff_ms_v 0 s)"
| "retry_loop env params max_retries_v backoff_ms_v attempt s =
     (if max_retries_v \<le> int attempt then (Inr JNull, s)
      else
        (case retry_attempt env params max_retries_v backoff_ms_v attempt s of
           (Inr result, s') \<Rightarrow> (Inr result, s')
         | (Inl e, s') \<Rightarrow>
             if int attempt = max_retries_v - 1
             then (Inl e, logger ERROR [Txt ''All '', Num max_retries_v,
                                        Txt '' retry attempts failed''] s')
             else retry_loop env params max_retries_v backoff_ms_v (attempt + 1) s'))"
| "retry_attempt env params max_retries_v backoff_ms_v attempt s =
     (if attempt > 0 then
        (case py_index backoff_ms_v (min (int attempt - 1) (int (length backoff_ms_v) - 1)) of
           Inl e \<Rightarrow> (Inl e, s)
         | Inr sleep_ms \<Rightarrow>
            (let s1 = logger INFO
                        [Txt ''Retry attempt '', Num (int attempt + 1), Txt ''/'',
                         Num max_retries_v, Txt '' after '', Num sleep_ms, Txt ''ms''] s
             in case time_sleep (of_int sleep_ms / 1000) s1 of
                  Inl e \<Rightarrow> (Inl e, s1)
                | Inr s2 \<Rightarrow> execute env params True True False s2))
      else execute env params True True False s)"
  by pat_completeness auto
termination
  by (relation "measures
        [\<lambda>x. case x of
               Inl (Inl (env, params, vi, vo, he, s)) \<Rightarrow> if he then 5 else (0::nat)
             | Inl (Inr _) \<Rightarrow> 4
             | Inr (Inl _) \<Rightarrow> 3
             | Inr (Inr (Inl _)) \<Rightarrow> 2
             | Inr (Inr (Inr _)) \<Rightarrow> 1,
         \<lambda>x. case x of
               Inr (Inr (Inl (env, params, n, bo, attempt, s))) \<Rightarrow> nat (n - int attempt)
             | _ \<Rightarrow> 0]")
     auto

declare execute.simps [simp del]
declare handle_error.simps [simp del]
declare retry_with_backoff.simps [simp del]
declare retry_loop.simps [simp del]
declare retry_attempt.simps [simp del]

section \<open>Trigger matching and the registry\<close>


















subsection \<open>What the specification says a search returns\<close>



section \<open>Example documents, tools and environments\<close>

definition example_manifest_doc :: manifest_doc where
  "example_manifest_doc =
     \<lparr> doc_id = Some ''tool.search'', doc_name = Some ''search_database'',
       doc_version = Some ''1.0.0'', doc_display_name = None, doc_description = None,
       doc_category = Some ''data'', doc_tags = Some [''search'', ''db''],
       doc_provider = None \<rparr>"

definition object_schema :: json where
  "object_schema = JObj [(''type'', JStr ''object'')]"

definition array_schema :: json where
  "array_schema = JObj [(''type'', JStr ''array'')]"

definition example_execution_doc :: execution_doc where
  "example_execution_doc =
     \<lparr> endpoint = Some \<lparr> endpoint_type = Some ''python_function'',
                          endpoint_module = Some ''shop.search'',
                          endpoint_function = Some ''search_database'' \<rparr>,
       parameters = Some object_schema,
       returns = Some \<lparr> success_schema = Some array_schema \<rparr> \<rparr>"

definition example_usage_doc :: usage_guidance_doc where
  "example_usage_doc =
     \<lparr> when_to_use = Some [\<lparr> trigger = Some ''Search Products'',
                             examples = Some [''Find red shirts''] \<rparr>] \<rparr>"

definition example_spec_doc :: "error_handling_doc list \<Rightarrow> spec_doc" where
  "example_spec_doc rules =
     \<lparr> doc_manifest = Some example_manifest_doc, doc_capabilities = Some (JObj []),
       doc_execution = Some example_execution_doc,
       doc_usage_guidance = Some example_usage_doc,
       doc_error_handling = Some rules \<rparr>"

definition example_rule :: "string \<Rightarrow> error_handling_doc" where
  "example_rule strat =
     \<lparr> doc_error_type = Some ''timeout'', doc_error_code = Some ''TimeoutError'',
       doc_recovery = Some \<lparr> doc_strategy = Some strat, doc_max_retries = None,
                             doc_backoff_ms = None, doc_wait_seconds = None,
                             doc_fallback_tool = None, doc_message_to_user = None \<rparr> \<rparr>"

definition unrecognized_strategy :: "error_handling_doc \<Rightarrow> bool" where
  "unrecognized_strategy d =
     (case doc_recovery d of None \<Rightarrow> False
      | Some rd \<Rightarrow> (case doc_strategy rd of None \<Rightarrow> False
          | Some v \<Rightarrow> v \<notin> set (map strategy_value all_strategies)))"

definition make_rule ::
  "string \<Rightarrow> string option \<Rightarrow> string \<Rightarrow> int option \<Rightarrow> int list option \<Rightarrow> rat option
     \<Rightarrow> string option \<Rightarrow> error_handling_doc" where
  "make_rule et ec strat mr bo ws msg =
     \<lparr> doc_error_type = Some et, doc_error_code = ec,
       doc_recovery = Some \<lparr> doc_strategy = Some strat, doc_max_retries = mr,
                             doc_backoff_ms = bo, doc_wait_seconds = ws,
                             doc_fallback_tool = None, doc_message_to_user = msg \<rparr> \<rparr>"

definition example_tool :: "error_handling_doc list \<Rightarrow> string Tool" where
  "example_tool rules = projr (Tool_init (example_spec_doc rules))"

definition example_validate :: "py_instance \<Rightarrow> json \<Rightarrow> exn option" where
  "example_validate inst schema =
     (case inst of
        Document _ \<Rightarrow> None
      | Value v \<Rightarrow>
          if schema = object_schema then
            (case v of JObj _ \<Rightarrow> None
             | _ \<Rightarrow> Some (Exn JSONSchemaValidationError ''instance is not of type object''))
          else if schema = array_schema then
            (case v of JArr _ \<Rightarrow> None
             | _ \<Rightarrow> Some (Exn JSONSchemaValidationError ''instance is not of type array''))
          else None)"

definition flaky_env :: "bool \<Rightarrow> nat \<Rightarrow> json \<Rightarrow> (string, nat) env" where
  "flaky_env installed k result =
     \<lparr> jsonschema_installed = installed,
       jsonschema_validate = example_validate,
       import_attr = (\<lambda>m f. if m = ''shop.search'' \<and> f = ''search_database'' then Inr f
                             else Inl (Exn ModuleNotFoundError (''No module named '' @ quote m))),
       attr_truthy = (\<lambda>f. True),
       call = (\<lambda>f p n. (if n < k then Inl (Exn TimeoutError ''timeout after 30s'')
                         else Inr result, n + 1)) \<rparr>"


definition initial_state :: "'f Tool \<Rightarrow> 'w \<Rightarrow> ('f, 'w) state" where
  "initial_state t w = \<lparr> self = t, world = w, trace = [] \<rparr>"

definition catch_all_rule :: error_handling_doc where
  "catch_all_rule =
     make_rule [] (Some ''ValidationError'') ''retry_with_backoff'' (Some 3) (Some [100, 200])
       None None"

definition rate_limit_rule :: error_handling_doc where
  "rate_limit_rule =
     make_rule ''rate limit'' (Some ''RateLimitError'') ''retry_with_backoff'' None None None None"

definition wait_rule :: error_handling_doc where
  "wait_rule =
     make_rule ''timeout'' (Some ''TimeoutError'') ''wait_and_retry'' None None (Some (1 / 2))
       (Some ''Service busy, retrying'')"

definition backoff_rule :: error_handling_doc where
  "backoff_rule =
     make_rule ''timeout'' None ''retry_with_backoff'' (Some 3) (Some [100, 200]) None None"

definition zero_retries_rule :: error_handling_doc where
  "zero_retries_rule =
     make_rule ''timeout'' None ''retry_with_backoff'' (Some 0) (Some []) None None"

definition zero_wait_rule :: error_handling_doc where
  "zero_wait_rule =
     make_rule ''timeout'' None ''wait_and_retry'' None None (Some 0) None"

definition wait_first_rules :: "error_handling_doc list" where
  "wait_first_rules = [rate_limit_rule, wait_rule, backoff_rule]"

definition backoff_first_rules :: "error_handling_doc list" where
  "backoff_first_rules = [rate_limit_rule, backoff_rule, wait_rule]"











section \<open>Construction of a tool\<close>

lemma getitem_Inl: "getitem f k = Inl e \<longleftrightarrow> f = None \<and> e = Exn KeyError (quote k)"
  by (auto simp: getitem_def split: option.splits)

lemma getitem_Inr: "getitem f k = Inr v \<longleftrightarrow> f = Some v"
  by (auto simp: getitem_def split: option.splits)

lemma find_SomeD: "find P xs = Some x \<Longrightarrow> x \<in> set xs \<and> P x"
  by (induction xs) (auto split: if_splits)

lemma RecoveryStrategy_call_Inl:
  "RecoveryStrategy_call v = Inl e \<longleftrightarrow>
     v \<notin> strategy_value ` set all_strategies \<and>
     e = Exn ValueError (quote v @ '' is not a valid RecoveryStrategy'')"
  by (auto simp: RecoveryStrategy_call_def find_None_iff split: option.splits dest: find_SomeD)

lemma RecoveryStrategy_call_Inr:
  "RecoveryStrategy_call v = Inr m \<Longrightarrow> strategy_value m = v \<and> m \<in> set all_strategies"
  by (auto simp: RecoveryStrategy_call_def split: option.splits dest: find_SomeD)

lemma ToolManifest_from_dict_Inl:
  "ToolManifest_from_dict md = Inl e \<Longrightarrow> exn_type e = KeyError"
  by (auto simp: ToolManifest_from_dict_def getitem_Inl split: sum.splits)

lemma ErrorRecovery_from_dict_Inl:
  "ErrorRecovery_from_dict d = Inl e \<Longrightarrow> exn_type e = KeyError \<or> exn_type e = ValueError"
  by (auto simp: ErrorRecovery_from_dict_def getitem_Inl RecoveryStrategy_call_Inl split: sum.splits)

lemma ErrorRecovery_from_dicts_Inl:
  "ErrorRecovery_from_dicts ds = Inl e \<Longrightarrow> exn_type e = KeyError \<or> exn_type e = ValueError"
  by (induction ds arbitrary: e) (auto split: sum.splits dest: ErrorRecovery_from_dict_Inl)


lemma RecoveryStrategy_call_unrecognized:
  "v \<notin> strategy_value ` set all_strategies \<Longrightarrow>
   RecoveryStrategy_call v = Inl (Exn ValueError (quote v @ '' is not a valid RecoveryStrategy''))"
  by (cases "RecoveryStrategy_call v")
     (auto simp: RecoveryStrategy_call_Inl dest!: RecoveryStrategy_call_Inr)

lemma ErrorRecovery_from_dict_unrecognized:
  "unrecognized_strategy d \<Longrightarrow> \<exists>e. ErrorRecovery_from_dict d = Inl e"
  by (auto simp: unrecognized_strategy_def ErrorRecovery_from_dict_def getitem_def
                 RecoveryStrategy_call_unrecognized
           split: sum.splits option.splits)

lemma ErrorRecovery_from_dicts_unrecognized:
  "d \<in> set ds \<Longrightarrow> unrecognized_strategy d \<Longrightarrow> \<exists>e. ErrorRecovery_from_dicts ds = Inl e"
proof (induction ds)
  case Nil
  then show ?case by simp
next
  case (Cons a ds)
  show ?case
  proof (cases "ErrorRecovery_from_dict a")
    case (Inl e)
    then show ?thesis by simp
  next
    case (Inr h)
    with ErrorRecovery_from_dict_unrecognized[OF Cons.prems(2)] have "a \<noteq> d"
      by auto
    with Cons.prems have "d \<in> set ds" by simp
    from Cons.IH[OF this Cons.prems(2)] Inr show ?thesis by auto
  qed
qed

lemma Tool_init_Inl_type:
  "Tool_init sp = Inl e \<Longrightarrow> exn_type e = KeyError \<or> exn_type e = ValueError"
  by (auto simp: Tool_init_def getitem_Inl split: sum.splits
           dest: ToolManifest_from_dict_Inl ErrorRecovery_from_dicts_Inl)

lemma Tool_init_missing_section:
  assumes "doc_manifest sp = None \<or> doc_capabilities sp = None \<or> doc_execution sp = None \<or>
           doc_usage_guidance sp = None"
  shows "\<exists>e. Tool_init sp = Inl e \<and> exn_type e = KeyError"
  using assms
  by (auto simp: Tool_init_def getitem_def split: sum.splits option.splits
           dest: ToolManifest_from_dict_Inl)

lemma Tool_init_unrecognized:
  assumes "d \<in> set (get_default (doc_error_handling sp) [])" "unrecognized_strategy d"
  shows "\<exists>e. Tool_init sp = Inl e"
  using ErrorRecovery_from_dicts_unrecognized[OF assms]
  by (auto simp: Tool_init_def split: sum.splits)

lemma ErrorRecovery_from_dicts_append_Inl:
  "ErrorRecovery_from_dicts pre = Inr hs \<Longrightarrow> ErrorRecovery_from_dict d = Inl e \<Longrightarrow>
   ErrorRecovery_from_dicts (pre @ d # post) = Inl e"
  by (induction pre arbitrary: hs) (auto split: sum.splits)

text \<open>
  Claim C6, as amended. A document without one of the sections \<open>manifest\<close>,
  \<open>capabilities\<close>, \<open>execution\<close>, \<open>usage_guidance\<close> is rejected by the constructor
  with a \<open>KeyError\<close>, and a document one of whose \<open>error_handling\<close> rules carries a
  strategy that is no value of \<open>RecoveryStrategy\<close> is rejected with a \<open>KeyError\<close> or a
  \<open>ValueError\<close>: the \<open>ValueError\<close> of the enum lookup when the sections, the manifest
  keys and the rules before it are in order and the rule has its \<open>error_type\<close>. In each
  case the result is the exception and no tool. The module has no class \<open>SpecError\<close>.
\<close>

theorem Tool_init_rejects_malformed:
  "(doc_manifest sp = None \<or> doc_capabilities sp = None \<or> doc_execution sp = None \<or>
    doc_usage_guidance sp = None
      \<longrightarrow> (\<exists>e. (Tool_init sp :: exn + 'f Tool) = Inl e \<and> exn_type e = KeyError))
   \<and> ((\<exists>d \<in> set (get_default (doc_error_handling sp) []). unrecognized_strategy d)
      \<longrightarrow> (\<exists>e. (Tool_init sp :: exn + 'f Tool) = Inl e \<and>
                (exn_type e = KeyError \<or> exn_type e = ValueError)))
   \<and> (doc_manifest sp = Some md \<and> ToolManifest_from_dict md = Inr m \<and>
       doc_capabilities sp \<noteq> None \<and> doc_execution sp \<noteq> None \<and> doc_usage_guidance sp \<noteq> None \<and>
       doc_error_handling sp = Some (pre @ d # post) \<and> ErrorRecovery_from_dicts pre = Inr hs \<and>
       doc_error_type d \<noteq> None \<and> doc_recovery d = Some rd \<and> doc_strategy rd = Some v \<and>
       v \<notin> set (map strategy_value all_strategies)
      \<longrightarrow> (Tool_init sp :: exn + 'f Tool) =
            Inl (Exn ValueError (quote v @ '' is not a valid RecoveryStrategy'')))"
proof (intro conjI impI)
  assume "doc_manifest sp = None \<or> doc_capabilities sp = None \<or> doc_execution sp = None \<or>
    doc_usage_guidance sp = None"
  then show "\<exists>e. (Tool_init sp :: exn + 'f Tool) = Inl e \<and> exn_type e = KeyError"
    by (rule Tool_init_missing_section)
next
  assume "\<exists>d \<in> set (get_default (doc_error_handling sp) []). unrecognized_strategy d"
  then obtain d' where "d' \<in> set (get_default (doc_error_handling sp) [])"
    and "unrecognized_strategy d'" by blast
  then obtain e where e: "(Tool_init sp :: exn + 'f Tool) = Inl e"
    using Tool_init_unrecognized by blast
  with Tool_init_Inl_type[OF e]
  show "\<exists>e. (Tool_init sp :: exn + 'f Tool) = Inl e \<and>
            (exn_type e = KeyError \<or> exn_type e = ValueError)"
    by blast
next
  assume a: "doc_manifest sp = Some md \<and> ToolManifest_from_dict md = Inr m \<and>
       doc_capabilities sp \<noteq> None \<and> doc_execution sp \<noteq> None \<and> doc_usage_guidance sp \<noteq> None \<and>
       doc_error_handling sp = Some (pre @ d # post) \<and> ErrorRecovery_from_dicts pre = Inr hs \<and>
       doc_error_type d \<noteq> None \<and> doc_recovery d = Some rd \<and> doc_strategy rd = Some v \<and>
       v \<notin> set (map strategy_value all_strategies)"
  then have "ErrorRecovery_from_dict d =
       Inl (Exn ValueError (quote v @ '' is not a valid RecoveryStrategy''))"
    by (auto simp: ErrorRecovery_from_dict_def getitem_def RecoveryStrategy_call_unrecognized)
  with a have "ErrorRecovery_from_dicts (pre @ d # post) =
       Inl (Exn ValueError (quote v @ '' is not a valid RecoveryStrategy''))"
    using ErrorRecovery_from_dicts_append_Inl by blast
  with a show "(Tool_init sp :: exn + 'f Tool) =
            Inl (Exn ValueError (quote v @ '' is not a valid RecoveryStrategy''))"
    by (auto simp: Tool_init_def getitem_def get_default_def)
qed

text \<open>
  The exception for a missing section is the built-in \<open>KeyError\<close>, whose class name is
  not \<open>SpecError\<close>.
\<close>

theorem Tool_init_raises_KeyError_not_SpecError:
  "(Tool_init ((example_spec_doc [])\<lparr>doc_capabilities := None\<rparr>) :: exn + string Tool) =
     Inl (Exn KeyError (quote ''capabilities'')) \<and>
   type_name KeyError \<noteq> ''SpecError''"
  by (simp add: Tool_init_def example_spec_doc_def getitem_def ToolManifest_from_dict_def
                example_manifest_doc_def)

lemma example_spec_doc_simps:
  "doc_manifest (example_spec_doc rules) = Some example_manifest_doc"
  "doc_capabilities (example_spec_doc rules) = Some (JObj [])"
  "doc_execution (example_spec_doc rules) = Some example_execution_doc"
  "doc_usage_guidance (example_spec_doc rules) = Some example_usage_doc"
  "doc_error_handling (example_spec_doc rules) = Some rules"
  by (simp_all add: example_spec_doc_def)

theorem Tool_init_rejects_malformed_witness:
  "doc_execution ((example_spec_doc [])\<lparr>doc_execution := None\<rparr>) = None \<and>
   (\<exists>e. (Tool_init ((example_spec_doc [])\<lparr>doc_execution := None\<rparr>) :: exn + string Tool) = Inl e
        \<and> exn_type e = KeyError) \<and>
   unrecognized_strategy (example_rule ''retry_later'') \<and>
   (Tool_init (example_spec_doc [example_rule ''fail'', example_rule ''retry_later''])
      :: exn + string Tool) =
     Inl (Exn ValueError (quote ''retry_later'' @ '' is not a valid RecoveryStrategy''))"
proof -
  have u: "unrecognized_strategy (example_rule ''retry_later'')"
    by (simp add: unrecognized_strategy_def example_rule_def all_strategies_def)
  have m: "ToolManifest_from_dict example_manifest_doc =
     Inr \<lparr> manifest_id = ''tool.search'', manifest_name = ''search_database'',
           version = ''1.0.0'', display_name = None, description = [], category = ''data'',
           tags = [''search'', ''db''], provider = [] \<rparr>"
    by (simp add: ToolManifest_from_dict_def example_manifest_doc_def getitem_def get_default_def)
  have p: "\<exists>hs. ErrorRecovery_from_dicts [example_rule ''fail''] = Inr hs"
    by (simp add: ErrorRecovery_from_dict_def example_rule_def getitem_def
                  RecoveryStrategy_call_def all_strategies_def)
  then obtain hs where hs: "ErrorRecovery_from_dicts [example_rule ''fail''] = Inr hs" ..
  have v: "''retry_later'' \<notin> set (map strategy_value all_strategies)"
    by (simp add: all_strategies_def)
  show ?thesis
    using u m hs v
      Tool_init_rejects_malformed[where sp = "(example_spec_doc [])\<lparr>doc_execution := None\<rparr>"
        and 'f = string]
      Tool_init_rejects_malformed[where sp = "example_spec_doc [example_rule ''fail'', example_rule ''retry_later'']"
        and 'f = string and md = example_manifest_doc and pre = "[example_rule ''fail'']"
        and d = "example_rule ''retry_later''" and post = "[]" and hs = hs
        and rd = "the (doc_recovery (example_rule ''retry_later''))" and v = "''retry_later''"]
    by (simp add: example_spec_doc_simps example_rule_def)
qed

section \<open>Validation and the unhandled execution\<close>

lemma execute_unhandled:
  "execute env params vi vo False s =
     (case (if vi then validate_input env params s else Inr True) of
        Inl e \<Rightarrow> (Inl e, s)
      | Inr _ \<Rightarrow>
         (case load_function env s of
            (Inl e, s1) \<Rightarrow> (Inl e, s1)
          | (Inr func, s1) \<Rightarrow> invoke env func params vo s1))"
  by (simp add: execute.simps split: sum.splits prod.splits)

lemma load_function_self:
  "load_function env s = (r, s1) \<Longrightarrow>
   self s1 = (self s)\<lparr>cached_function := cached_function (self s1)\<rparr> \<and> world s1 = world s"
  by (auto simp: load_function_def resolve_endpoint_def emit_def Let_def split: option.splits sum.splits if_splits)

lemma example_manifest:
  "ToolManifest_from_dict example_manifest_doc =
     Inr \<lparr> manifest_id = ''tool.search'', manifest_name = ''search_database'',
           version = ''1.0.0'', display_name = None, description = [], category = ''data'',
           tags = [''search'', ''db''], provider = [] \<rparr>"
  by (simp add: ToolManifest_from_dict_def example_manifest_doc_def getitem_def get_default_def)

lemma example_tool_eq:
  "ErrorRecovery_from_dicts rules = Inr hs \<Longrightarrow>
   example_tool rules =
     \<lparr> spec = example_spec_doc rules,
       manifest = \<lparr> manifest_id = ''tool.search'', manifest_name = ''search_database'',
           version = ''1.0.0'', display_name = None, description = [], category = ''data'',
           tags = [''search'', ''db''], provider = [] \<rparr>,
       capabilities = JObj [], execution = example_execution_doc,
       usage_guidance = example_usage_doc, error_handlers = hs, cached_function = None \<rparr>"
  by (simp add: example_tool_def Tool_init_def example_spec_doc_simps example_manifest
                getitem_def get_default_def)

lemma make_rule_from_dict:
  "RecoveryStrategy_call strat = Inr st \<Longrightarrow>
   ErrorRecovery_from_dict (make_rule et ec strat mr bo ws msg) =
     Inr \<lparr> error_type = et, error_code = ec, strategy = st, max_retries = mr,
           backoff_ms = bo, wait_seconds = ws, fallback_tool = None, message_to_user = msg \<rparr>"
  by (simp add: ErrorRecovery_from_dict_def make_rule_def getitem_def)

lemma RecoveryStrategy_call_values:
  "RecoveryStrategy_call ''retry'' = Inr RETRY"
  "RecoveryStrategy_call ''retry_with_backoff'' = Inr RETRY_WITH_BACKOFF"
  "RecoveryStrategy_call ''wait_and_retry'' = Inr WAIT_AND_RETRY"
  "RecoveryStrategy_call ''alternate_tool'' = Inr ALTERNATE_TOOL"
  "RecoveryStrategy_call ''fail'' = Inr FAIL"
  "RecoveryStrategy_call ''prompt_user'' = Inr PROMPT_USER"
  by (simp_all add: RecoveryStrategy_call_def all_strategies_def)

text \<open>
  Claim C7. Without \<open>jsonschema\<close> the module's \<open>validate\<close> does nothing, so for every
  value \<open>validate_input\<close> returns \<open>True\<close> on a tool that declares its
  \<open>parameters\<close> (the lookup \<open>self.execution['parameters']\<close> comes before the
  validator), \<open>validate_output\<close> returns \<open>True\<close> and leaves no log record, and
  \<open>validate_spec\<close> returns \<open>True\<close> for every schema.
\<close>

theorem validation_degrades_without_jsonschema:
  assumes "\<not> jsonschema_installed env"
  shows "(parameters (execution (self s)) \<noteq> None \<longrightarrow> validate_input env params s = Inr True)
       \<and> validate_output env result s = (Inr True, s)
       \<and> fst (validate_spec env schema s) = Inr True"
  using assms
  by (auto simp: validate_input_def validate_output_def validate_spec_def validate_def getitem_def
           split: option.splits)

theorem validation_degrades_without_jsonschema_witness:
  "\<not> jsonschema_installed (flaky_env False 0 (JArr [])) \<and>
   parameters (execution (self (initial_state (example_tool []) (0::nat)))) \<noteq> None \<and>
   validate_input (flaky_env False 0 (JArr [])) JNull (initial_state (example_tool []) (0::nat)) =
     Inr True \<and>
   validate_output (flaky_env False 0 (JArr [])) (JStr ''x'') (initial_state (example_tool []) (0::nat)) =
     (Inr True, initial_state (example_tool []) (0::nat))"
proof -
  have t: "execution (example_tool []) = example_execution_doc"
    by (simp add: example_tool_eq)
  have h1: "\<not> jsonschema_installed (flaky_env False 0 (JArr []))"
    by (simp add: flaky_env_def)
  have h2: "parameters (execution (self (initial_state (example_tool []) (0::nat)))) \<noteq> None"
    by (simp add: initial_state_def t example_execution_doc_def)
  from validation_degrades_without_jsonschema[OF h1,
      where s = "initial_state (example_tool []) (0::nat)" and params = JNull
        and result = "JStr ''x''"] h1 h2
  show ?thesis by blast
qed

text \<open>
  Claim C2. When \<open>jsonschema\<close> rejects the parameters against the declared schema,
  \<open>execute\<close> with \<open>validate_input=True\<close> raises the module's \<open>ValidationError\<close>
  and leaves the state as it was: nothing was imported, the callable was not invoked,
  nothing was logged and no time was slept. This holds for every value of
  \<open>handle_errors\<close> and every list of recovery rules, so the error is not matched
  against them.
\<close>

theorem invalid_input_raises_before_call:
  assumes "jsonschema_installed env"
    and "parameters (execution (self s)) = Some schema"
    and "jsonschema_validate env (Value params) schema = Some e"
    and "exn_type e = JSONSchemaValidationError"
  shows "execute env params True vo he s =
           (Inl (Exn ValidationError (''Invalid input parameters: '' @ exn_str e)), s)"
  using assms
  by (simp add: execute.simps validate_input_def validate_def getitem_def
                is_JSONSchemaValidationError_def)

theorem invalid_input_raises_before_call_witness:
  "jsonschema_installed (flaky_env True 0 (JArr [])) \<and>
   parameters (execution (self (initial_state (example_tool [catch_all_rule]) (0::nat)))) =
     Some object_schema \<and>
   jsonschema_validate (flaky_env True 0 (JArr [])) (Value JNull) object_schema =
     Some (Exn JSONSchemaValidationError ''instance is not of type object'') \<and>
   execute (flaky_env True 0 (JArr [])) JNull True True True
       (initial_state (example_tool [catch_all_rule]) (0::nat)) =
     (Inl (Exn ValidationError ''Invalid input parameters: instance is not of type object''),
      initial_state (example_tool [catch_all_rule]) (0::nat))"
proof -
  have t: "execution (example_tool [catch_all_rule]) = example_execution_doc"
    by (simp add: example_tool_eq catch_all_rule_def make_rule_from_dict
                  RecoveryStrategy_call_values)
  have h1: "jsonschema_installed (flaky_env True 0 (JArr []))"
    by (simp add: flaky_env_def)
  have h2: "parameters (execution (self (initial_state (example_tool [catch_all_rule]) (0::nat)))) =
     Some object_schema"
    by (simp add: initial_state_def t example_execution_doc_def)
  have h3: "jsonschema_validate (flaky_env True 0 (JArr [])) (Value JNull) object_schema =
     Some (Exn JSONSchemaValidationError ''instance is not of type object'')"
    by (simp add: flaky_env_def example_validate_def)
  from invalid_input_raises_before_call[OF h1 h2 h3, of True True] h1 h2 h3
  show ?thesis by simp
qed

text \<open>
  Claim C4. When the callable returns \<open>result\<close>, \<open>validate_output\<close> is on and
  \<open>jsonschema\<close> rejects the result against the declared \<open>success_schema\<close>,
  \<open>execute\<close> returns \<open>result\<close> itself; the rejection leaves one \<open>WARNING\<close>
  record between the invocation and the record of success, and nothing else.
\<close>

theorem output_validation_failure_only_logged:
  assumes "jsonschema_installed env"
    and "vi \<longrightarrow> validate_input env params s = Inr True"
    and "load_function env s = (Inr func, s1)"
    and "call env func params (world s1) = (Inr result, w)"
    and "returns (execution (self s)) = Some r" and "success_schema r = Some schema"
    and "jsonschema_validate env (Value result) schema = Some e"
    and "exn_type e = JSONSchemaValidationError"
  shows "execute env params vi True he s =
           (Inr result,
            s1\<lparr>world := w,
               trace := trace s1 @
                 [Logged INFO [Txt ''Executing tool: '', Txt (manifest_name (manifest (self s)))],
                  Invoked params,
                  Logged WARNING [Txt ''Output validation failed: '', Txt (exn_str e)],
                  Logged INFO [Txt ''Tool '', Txt (manifest_name (manifest (self s))),
                               Txt '' executed successfully'']]\<rparr>)"
proof -
  from load_function_self[OF assms(3)]
  have ex: "execution (self s1) = execution (self s)"
    and mn: "manifest (self s1) = manifest (self s)"
    by (metis (no_types) Tool.select_convs Tool.surjective Tool.update_convs)+
  have "invoke env func params True s1 = (Inr result,
            s1\<lparr>world := w,
               trace := trace s1 @
                 [Logged INFO [Txt ''Executing tool: '', Txt (manifest_name (manifest (self s)))],
                  Invoked params,
                  Logged WARNING [Txt ''Output validation failed: '', Txt (exn_str e)],
                  Logged INFO [Txt ''Tool '', Txt (manifest_name (manifest (self s))),
                               Txt '' executed successfully'']]\<rparr>)"
    using assms ex mn
    by (simp add: invoke_def validate_output_def validate_def is_JSONSchemaValidationError_def
                  logger_def emit_def)
  with assms(2,3) show ?thesis
    by (cases vi) (simp_all add: execute.simps)
qed

theorem output_validation_failure_only_logged_witness:
  "jsonschema_installed (flaky_env True 0 (JStr ''x'')) \<and>
   validate_input (flaky_env True 0 (JStr ''x'')) (JObj []) (initial_state (example_tool []) (0::nat)) =
     Inr True \<and>
   returns (execution (self (initial_state (example_tool []) (0::nat)))) =
     Some \<lparr> success_schema = Some array_schema \<rparr> \<and>
   jsonschema_validate (flaky_env True 0 (JStr ''x'')) (Value (JStr ''x'')) array_schema =
     Some (Exn JSONSchemaValidationError ''instance is not of type array'') \<and>
   fst (execute (flaky_env True 0 (JStr ''x'')) (JObj []) True True True
         (initial_state (example_tool []) (0::nat))) = Inr (JStr ''x'') \<and>
   trace (snd (execute (flaky_env True 0 (JStr ''x'')) (JObj []) True True True
         (initial_state (example_tool []) (0::nat)))) =
     [Imported ''shop.search'' ''search_database'',
      Logged INFO [Txt ''Executing tool: '', Txt ''search_database''],
      Invoked (JObj []),
      Logged WARNING [Txt ''Output validation failed: '', Txt ''instance is not of type array''],
      Logged INFO [Txt ''Tool '', Txt ''search_database'', Txt '' executed successfully'']]"
proof -
  let ?env = "flaky_env True 0 (JStr ''x'')"
  let ?s = "initial_state (example_tool []) (0::nat)"
  let ?s1 = "(emit (Imported ''shop.search'' ''search_database'') ?s)
               \<lparr>self := (example_tool [])\<lparr>cached_function := Some ''search_database''\<rparr>\<rparr>"
  have t: "example_tool [] =
     \<lparr> spec = example_spec_doc [],
       manifest = \<lparr> manifest_id = ''tool.search'', manifest_name = ''search_database'',
           version = ''1.0.0'', display_name = None, description = [], category = ''data'',
           tags = [''search'', ''db''], provider = [] \<rparr>,
       capabilities = JObj [], execution = example_execution_doc,
       usage_guidance = example_usage_doc, error_handlers = [], cached_function = None \<rparr>"
    by (simp add: example_tool_eq)
  have h1: "jsonschema_installed ?env" by (simp add: flaky_env_def)
  have h2: "validate_input ?env (JObj []) ?s = Inr True"
    by (simp add: validate_input_def validate_def initial_state_def t example_execution_doc_def
                  getitem_def flaky_env_def example_validate_def)
  have h3: "load_function ?env ?s = (Inr ''search_database'', ?s1)"
    by (simp add: load_function_def resolve_endpoint_def initial_state_def t example_execution_doc_def getitem_def
                  flaky_env_def emit_def)
  have h4: "call ?env ''search_database'' (JObj []) (world ?s1) = (Inr (JStr ''x''), 1)"
    by (simp add: flaky_env_def initial_state_def emit_def)
  have h5: "returns (execution (self ?s)) = Some \<lparr> success_schema = Some array_schema \<rparr>"
    by (simp add: initial_state_def t example_execution_doc_def)
  have h6: "jsonschema_validate ?env (Value (JStr ''x'')) array_schema =
     Some (Exn JSONSchemaValidationError ''instance is not of type array'')"
    by (simp add: flaky_env_def example_validate_def array_schema_def object_schema_def)
  have h7: "success_schema \<lparr> success_schema = Some array_schema \<rparr> = Some array_schema"
    by simp
  have h8: "exn_type (Exn JSONSchemaValidationError ''instance is not of type array'') =
     JSONSchemaValidationError" by simp
  from output_validation_failure_only_logged[where env = ?env and vi = True
      and params = "JObj []" and s = ?s and he = True, OF h1 _ h3 h4 h5 h7 h6 h8] h1 h2 h5 h6
  show ?thesis by (simp add: initial_state_def emit_def t)
qed

section \<open>Traces and the state an execution leaves\<close>

lemma slept_append: "slept (xs @ ys) = slept xs @ slept ys"
  by (induction xs) (auto split: event.splits)

lemma invoked_append: "invoked (xs @ ys) = invoked xs @ invoked ys"
  by (induction xs) (auto split: event.splits)

lemma imported_append: "imported (xs @ ys) = imported xs @ imported ys"
  by (induction xs) (auto split: event.splits)

lemma logger_simps:
  "self (logger lvl msg s) = self s"
  "world (logger lvl msg s) = world s"
  "trace (logger lvl msg s) = trace s @ [Logged lvl msg]"
  by (simp_all add: logger_def emit_def)

lemma emit_simps:
  "self (emit ev s) = self s"
  "world (emit ev s) = world s"
  "trace (emit ev s) = trace s @ [ev]"
  by (simp_all add: emit_def)

lemma validate_output_state:
  "validate_output env result s = (r, s') \<Longrightarrow>
   self s' = self s \<and> world s' = world s \<and> slept (trace s') = slept (trace s) \<and>
   invoked (trace s') = invoked (trace s) \<and> imported (trace s') = imported (trace s)"
  by (auto simp: validate_output_def logger_simps slept_append invoked_append imported_append
           split: option.splits if_splits)

lemma invoke_state:
  assumes "invoke env func params vo s = (r, s')"
  shows "self s' = self s \<and> slept (trace s') = slept (trace s) \<and>
         invoked (trace s') = invoked (trace s) @ [params] \<and>
         imported (trace s') = imported (trace s)"
proof -
  obtain out w where c: "call env func params (world s) = (out, w)"
    by (cases "call env func params (world s)")
  let ?s3 = "(emit (Invoked params)
               (logger INFO [Txt ''Executing tool: '', Txt (manifest_name (manifest (self s)))] s))
             \<lparr>world := w\<rparr>"
  have s3: "self ?s3 = self s" "slept (trace ?s3) = slept (trace s)"
    "invoked (trace ?s3) = invoked (trace s) @ [params]"
    "imported (trace ?s3) = imported (trace s)"
    by (simp_all add: logger_simps emit_simps slept_append invoked_append imported_append)
  show ?thesis
  proof (cases out)
    case (Inl e)
    with assms c have "s' = ?s3"
      by (simp add: invoke_def Let_def logger_simps emit_simps)
    with s3 show ?thesis by simp
  next
    case (Inr result)
    show ?thesis
    proof (cases vo)
      case True
      obtain v s4 where v: "validate_output env result ?s3 = (v, s4)"
        by (cases "validate_output env result ?s3")
      from validate_output_state[OF v] s3
      have s4: "self s4 = self s" "slept (trace s4) = slept (trace s)"
        "invoked (trace s4) = invoked (trace s) @ [params]"
        "imported (trace s4) = imported (trace s)" by simp_all
      from assms c Inr True v
      have "s' = s4 \<or> s' = logger INFO [Txt ''Tool '', Txt (manifest_name (manifest (self s4))),
                                Txt '' executed successfully''] s4"
        by (auto simp: invoke_def Let_def logger_simps emit_simps split: sum.splits)
      with s4 show ?thesis
        by (auto simp: logger_simps slept_append invoked_append imported_append)
    next
      case False
      with assms c Inr
      have "s' = logger INFO [Txt ''Tool '', Txt (manifest_name (manifest (self ?s3))),
                                Txt '' executed successfully''] ?s3"
        by (simp add: invoke_def Let_def logger_simps emit_simps)
      with s3 show ?thesis
        by (simp add: logger_simps slept_append invoked_append imported_append)
    qed
  qed
qed

lemma load_function_state:
  assumes "load_function env s = (r, s1)"
  shows "execution (self s1) = execution (self s) \<and> manifest (self s1) = manifest (self s) \<and>
         error_handlers (self s1) = error_handlers (self s) \<and>
         usage_guidance (self s1) = usage_guidance (self s) \<and>
         spec (self s1) = spec (self s) \<and> capabilities (self s1) = capabilities (self s) \<and>
         world s1 = world s \<and>
         slept (trace s1) = slept (trace s) \<and> invoked (trace s1) = invoked (trace s)"
  using assms
  by (auto simp: load_function_def resolve_endpoint_def emit_simps Let_def slept_append invoked_append
           split: option.splits sum.splits if_splits)

lemma load_function_cached:
  "cached_function (self s) = Some f \<Longrightarrow> attr_truthy env f \<Longrightarrow>
   load_function env s = (Inr f, s)"
  by (simp add: load_function_def)

lemma load_function_Inr_cached:
  "load_function env s = (Inr f, s1) \<Longrightarrow> cached_function (self s1) = Some f"
  by (auto simp: load_function_def resolve_endpoint_def emit_simps Let_def split: option.splits sum.splits if_splits)

lemma find_handler_find: "find_handler hs e = find (\<lambda>h. handler_matches h e) hs"
  by (induction hs) auto

lemma handle_error_unmatched:
  "find_handler (error_handlers (self s)) e = None \<Longrightarrow>
   handle_error env e params s =
     (Inl e, logger ERROR [Txt ''No error handler found for '', Txt (type_name (exn_type e))] s)"
  by (simp add: handle_error.simps)

lemma execute_unhandled_state:
  assumes "execute env params vi vo False s = (r, s')"
  shows "slept (trace s') = slept (trace s) \<and>
         (invoked (trace s') = invoked (trace s) \<or>
          invoked (trace s') = invoked (trace s) @ [params]) \<and>
         error_handlers (self s') = error_handlers (self s) \<and>
         execution (self s') = execution (self s)"
proof (cases "if vi then validate_input env params s else Inr True")
  case (Inl e)
  with assms show ?thesis by (simp add: execute_unhandled)
next
  case (Inr b)
  obtain lr s1 where l: "load_function env s = (lr, s1)" by (cases "load_function env s")
  show ?thesis
  proof (cases lr)
    case (Inl e)
    with assms Inr l load_function_state[OF l] show ?thesis by (simp add: execute_unhandled)
  next
    case f: (Inr func)
    with assms Inr l have "invoke env func params vo s1 = (r, s')"
      by (simp add: execute_unhandled)
    from invoke_state[OF this] load_function_state[OF l] show ?thesis by simp
  qed
qed

lemma handle_error_wait_and_retry:
  assumes "find_handler (error_handlers (self s)) e = Some h"
    and "strategy h = WAIT_AND_RETRY"
    and "\<forall>x. wait_seconds h = Some x \<longrightarrow> 0 \<le> x"
  shows "handle_error env e params s =
           execute env params True True False
             (emit (Slept (case wait_seconds h of None \<Rightarrow> 1 | Some x \<Rightarrow> if x = 0 then 1 else x))
               (case message_to_user h of
                  None \<Rightarrow> logger INFO [Txt ''Handling error with strategy: '',
                                         Txt ''wait_and_retry''] s
                | Some m \<Rightarrow>
                    if m = [] then logger INFO [Txt ''Handling error with strategy: '',
                                                Txt ''wait_and_retry''] s
                    else logger INFO [Txt m]
                           (logger INFO [Txt ''Handling error with strategy: '',
                                         Txt ''wait_and_retry''] s)))"
  using assms
  by (auto simp: handle_error.simps Let_def time_sleep_def num_or_def list_or_def
           split: option.splits)

lemmas rule_defs = rate_limit_rule_def wait_rule_def backoff_rule_def catch_all_rule_def

lemmas tool_simps = example_tool_eq make_rule_from_dict RecoveryStrategy_call_values

lemmas run_simps =
  execute.simps handle_error.simps retry_with_backoff.simps retry_loop.simps
  retry_attempt.simps validate_input_def validate_output_def validate_def
  is_JSONSchemaValidationError_def load_function_def resolve_endpoint_def invoke_def emit_def logger_def
  time_sleep_def py_index_def num_or_def list_or_def getitem_def handler_matches_def
  flaky_env_def initial_state_def example_validate_def object_schema_def array_schema_def
  example_execution_doc_def sublist_code

section \<open>Recovery dispatch\<close>

lemma find_handler_first:
  assumes "i < length hs" and "handler_matches (hs ! i) e"
    and "\<forall>j<i. \<not> handler_matches (hs ! j) e"
  shows "find_handler hs e = Some (hs ! i)"
  using assms by (auto simp: find_handler_find find_Some_iff)

lemma handle_error_dispatch:
  assumes "find_handler (error_handlers (self s)) e = Some r"
    and "s3 = logger INFO [Txt ''Handling error with strategy: '',
                           Txt (strategy_value (strategy r))] s"
  shows "(strategy r = RETRY_WITH_BACKOFF \<longrightarrow>
            handle_error env e params s = retry_with_backoff env params r s3) \<and>
         (strategy r = WAIT_AND_RETRY \<longrightarrow>
            handle_error env e params s =
              (case time_sleep (case wait_seconds r of None \<Rightarrow> 1
                                | Some x \<Rightarrow> if x = 0 then 1 else x)
                      (case message_to_user r of None \<Rightarrow> s3
                       | Some m \<Rightarrow> if m = [] then s3 else logger INFO [Txt m] s3) of
                 Inl e' \<Rightarrow>
                   (Inl e', case message_to_user r of None \<Rightarrow> s3
                            | Some m \<Rightarrow> if m = [] then s3 else logger INFO [Txt m] s3)
               | Inr s5 \<Rightarrow> execute env params True True False s5)) \<and>
         (strategy r = PROMPT_USER \<longrightarrow>
            handle_error env e params s =
              (Inl e, logger WARNING
                        [Txt (case message_to_user r of None \<Rightarrow> exn_str e
                              | Some m \<Rightarrow> if m = [] then exn_str e else m)] s3)) \<and>
         (strategy r = FAIL \<or> strategy r = RETRY \<or> strategy r = ALTERNATE_TOOL \<longrightarrow>
            handle_error env e params s = (Inl e, s3))"
proof (intro conjI impI)
  assume "strategy r = RETRY_WITH_BACKOFF"
  with assms show "handle_error env e params s = retry_with_backoff env params r s3"
    by (simp add: handle_error.simps Let_def)
next
  assume w: "strategy r = WAIT_AND_RETRY"
  show "handle_error env e params s =
              (case time_sleep (case wait_seconds r of None \<Rightarrow> 1
                                | Some x \<Rightarrow> if x = 0 then 1 else x)
                      (case message_to_user r of None \<Rightarrow> s3
                       | Some m \<Rightarrow> if m = [] then s3 else logger INFO [Txt m] s3) of
                 Inl e' \<Rightarrow>
                   (Inl e', case message_to_user r of None \<Rightarrow> s3
                            | Some m \<Rightarrow> if m = [] then s3 else logger INFO [Txt m] s3)
               | Inr s5 \<Rightarrow> execute env params True True False s5)"
  proof (cases "message_to_user r")
    case None
    with assms w show ?thesis
      by (cases "wait_seconds r")
         (auto simp: handle_error.simps num_or_def list_or_def Let_def split: sum.splits)
  next
    case (Some m)
    with assms w show ?thesis
      by (cases "wait_seconds r"; cases "m = []")
         (auto simp: handle_error.simps num_or_def list_or_def Let_def split: sum.splits)
  qed
next
  assume "strategy r = PROMPT_USER"
  with assms show "handle_error env e params s =
              (Inl e, logger WARNING
                        [Txt (case message_to_user r of None \<Rightarrow> exn_str e
                              | Some m \<Rightarrow> if m = [] then exn_str e else m)] s3)"
    by (cases "message_to_user r") (simp_all add: handle_error.simps list_or_def Let_def)
next
  assume "strategy r = FAIL \<or> strategy r = RETRY \<or> strategy r = ALTERNATE_TOOL"
  with assms show "handle_error env e params s = (Inl e, s3)"
    by (auto simp: handle_error.simps Let_def)
qed

lemma run_wait_first:
  "fst (execute (flaky_env True 1 (JArr [])) (JObj []) True True True
         (initial_state (example_tool wait_first_rules) (0::nat))) = Inr (JArr []) \<and>
   slept (trace (snd (execute (flaky_env True 1 (JArr [])) (JObj []) True True True
         (initial_state (example_tool wait_first_rules) (0::nat))))) = [1 / 2]"
  by (simp add: wait_first_rules_def tool_simps rule_defs run_simps)

lemma run_backoff_first:
  "fst (execute (flaky_env True 2 (JArr [])) (JObj []) True True True
         (initial_state (example_tool backoff_first_rules) (0::nat))) = Inr (JArr []) \<and>
   slept (trace (snd (execute (flaky_env True 2 (JArr [])) (JObj []) True True True
         (initial_state (example_tool backoff_first_rules) (0::nat))))) = [1 / 10]"
  by (simp add: backoff_first_rules_def tool_simps rule_defs run_simps)

text \<open>
  Claim C3. The handlers are tried in the order of the document and the first one that
  passes the test is taken: the one whose \<open>error_code\<close> is the class name of the
  failure or whose \<open>error_type\<close> occurs in its message. When the invocation fails
  with \<open>e\<close> and no handler passes, \<open>execute\<close> raises \<open>e\<close> itself, for either
  value of \<open>handle_errors\<close>, after a single invocation and without sleeping. When the
  handler at index \<open>i\<close> of \<open>error_handlers\<close> passes and none before it does,
  \<open>execute\<close> with \<open>handle_errors\<close> runs the strategy of that handler and of no
  other: the back-off loop on it, or its wait followed by one more execution, or its
  message as a warning and \<open>e\<close> raised, or \<open>e\<close> raised at once; without
  \<open>handle_errors\<close> it raises \<open>e\<close> whatever the handlers are.
\<close>

theorem first_matching_rule_else_reraise:
  "(find_handler hs e = Some h \<longleftrightarrow>
      (\<exists>i<length hs. hs ! i = h \<and> handler_matches h e \<and> (\<forall>j<i. \<not> handler_matches (hs ! j) e)))
   \<and> (find_handler hs e = None \<longleftrightarrow> (\<forall>h \<in> set hs. \<not> handler_matches h e))
   \<and> (handler_matches h e \<longleftrightarrow>
        error_code h = Some (type_name (exn_type e)) \<or> sublist (error_type h) (exn_str e))
   \<and> ((vi \<longrightarrow> validate_input env params s = Inr True) \<and>
       load_function env s = (Inr func, s1) \<and>
       invoke env func params vo s1 = (Inl e, s2) \<and>
       (\<forall>h \<in> set (error_handlers (self s)). \<not> handler_matches h e)
      \<longrightarrow> fst (execute env params vi vo he s) = Inl e \<and>
          slept (trace (snd (execute env params vi vo he s))) = slept (trace s) \<and>
          invoked (trace (snd (execute env params vi vo he s))) = invoked (trace s) @ [params])
   \<and> ((vi \<longrightarrow> validate_input env params s = Inr True) \<and>
       load_function env s = (Inr func, s1) \<and>
       invoke env func params vo s1 = (Inl e, s2) \<and>
       i < length (error_handlers (self s)) \<and>
       handler_matches (error_handlers (self s) ! i) e \<and>
       (\<forall>j<i. \<not> handler_matches (error_handlers (self s) ! j) e) \<and>
       r = error_handlers (self s) ! i \<and>
       s3 = logger INFO [Txt ''Handling error with strategy: '',
                         Txt (strategy_value (strategy r))] s2
      \<longrightarrow> execute env params vi vo False s = (Inl e, s2) \<and>
          (strategy r = RETRY_WITH_BACKOFF \<longrightarrow>
             execute env params vi vo True s = retry_with_backoff env params r s3) \<and>
          (strategy r = WAIT_AND_RETRY \<longrightarrow>
             execute env params vi vo True s =
               (case time_sleep (case wait_seconds r of None \<Rightarrow> 1
                                 | Some x \<Rightarrow> if x = 0 then 1 else x)
                       (case message_to_user r of None \<Rightarrow> s3
                        | Some m \<Rightarrow> if m = [] then s3 else logger INFO [Txt m] s3) of
                  Inl e' \<Rightarrow>
                    (Inl e', case message_to_user r of None \<Rightarrow> s3
                             | Some m \<Rightarrow> if m = [] then s3 else logger INFO [Txt m] s3)
                | Inr s5 \<Rightarrow> execute env params True True False s5)) \<and>
          (strategy r = PROMPT_USER \<longrightarrow>
             execute env params vi vo True s =
               (Inl e, logger WARNING
                         [Txt (case message_to_user r of None \<Rightarrow> exn_str e
                               | Some m \<Rightarrow> if m = [] then exn_str e else m)] s3)) \<and>
          (strategy r = FAIL \<or> strategy r = RETRY \<or> strategy r = ALTERNATE_TOOL \<longrightarrow>
             execute env params vi vo True s = (Inl e, s3)))"
proof (intro conjI)
  show "find_handler hs e = Some h \<longleftrightarrow>
      (\<exists>i<length hs. hs ! i = h \<and> handler_matches h e \<and> (\<forall>j<i. \<not> handler_matches (hs ! j) e))"
    by (auto simp: find_handler_find find_Some_iff)
  show "find_handler hs e = None \<longleftrightarrow> (\<forall>h \<in> set hs. \<not> handler_matches h e)"
    by (auto simp: find_handler_find find_None_iff)
  show "handler_matches h e \<longleftrightarrow>
        error_code h = Some (type_name (exn_type e)) \<or> sublist (error_type h) (exn_str e)"
    by (simp add: handler_matches_def)
  show "(vi \<longrightarrow> validate_input env params s = Inr True) \<and>
       load_function env s = (Inr func, s1) \<and>
       invoke env func params vo s1 = (Inl e, s2) \<and>
       (\<forall>h \<in> set (error_handlers (self s)). \<not> handler_matches h e)
      \<longrightarrow> fst (execute env params vi vo he s) = Inl e \<and>
          slept (trace (snd (execute env params vi vo he s))) = slept (trace s) \<and>
          invoked (trace (snd (execute env params vi vo he s))) = invoked (trace s) @ [params]"
  proof
    assume a: "(vi \<longrightarrow> validate_input env params s = Inr True) \<and>
       load_function env s = (Inr func, s1) \<and>
       invoke env func params vo s1 = (Inl e, s2) \<and>
       (\<forall>h \<in> set (error_handlers (self s)). \<not> handler_matches h e)"
    then have l: "load_function env s = (Inr func, s1)"
      and i: "invoke env func params vo s1 = (Inl e, s2)" by simp_all
    from load_function_state[OF l] invoke_state[OF i]
    have st: "error_handlers (self s2) = error_handlers (self s)"
      "slept (trace s2) = slept (trace s)" "invoked (trace s2) = invoked (trace s) @ [params]"
      by simp_all
    with a have n: "find_handler (error_handlers (self s2)) e = None"
      by (simp add: find_handler_find find_None_iff)
    have "execute env params vi vo he s =
          (if he then handle_error env e params s2 else (Inl e, s2))"
      using a by (cases vi) (simp_all add: execute.simps)
    with handle_error_unmatched[OF n] st
    show "fst (execute env params vi vo he s) = Inl e \<and>
          slept (trace (snd (execute env params vi vo he s))) = slept (trace s) \<and>
          invoked (trace (snd (execute env params vi vo he s))) = invoked (trace s) @ [params]"
      by (simp add: logger_simps slept_append invoked_append)
  qed
  show "(vi \<longrightarrow> validate_input env params s = Inr True) \<and>
       load_function env s = (Inr func, s1) \<and>
       invoke env func params vo s1 = (Inl e, s2) \<and>
       i < length (error_handlers (self s)) \<and>
       handler_matches (error_handlers (self s) ! i) e \<and>
       (\<forall>j<i. \<not> handler_matches (error_handlers (self s) ! j) e) \<and>
       r = error_handlers (self s) ! i \<and>
       s3 = logger INFO [Txt ''Handling error with strategy: '',
                         Txt (strategy_value (strategy r))] s2
      \<longrightarrow> execute env params vi vo False s = (Inl e, s2) \<and>
          (strategy r = RETRY_WITH_BACKOFF \<longrightarrow>
             execute env params vi vo True s = retry_with_backoff env params r s3) \<and>
          (strategy r = WAIT_AND_RETRY \<longrightarrow>
             execute env params vi vo True s =
               (case time_sleep (case wait_seconds r of None \<Rightarrow> 1
                                 | Some x \<Rightarrow> if x = 0 then 1 else x)
                       (case message_to_user r of None \<Rightarrow> s3
                        | Some m \<Rightarrow> if m = [] then s3 else logger INFO [Txt m] s3) of
                  Inl e' \<Rightarrow>
                    (Inl e', case message_to_user r of None \<Rightarrow> s3
                             | Some m \<Rightarrow> if m = [] then s3 else logger INFO [Txt m] s3)
                | Inr s5 \<Rightarrow> execute env params True True False s5)) \<and>
          (strategy r = PROMPT_USER \<longrightarrow>
             execute env params vi vo True s =
               (Inl e, logger WARNING
                         [Txt (case message_to_user r of None \<Rightarrow> exn_str e
                               | Some m \<Rightarrow> if m = [] then exn_str e else m)] s3)) \<and>
          (strategy r = FAIL \<or> strategy r = RETRY \<or> strategy r = ALTERNATE_TOOL \<longrightarrow>
             execute env params vi vo True s = (Inl e, s3))"
  proof
    assume a: "(vi \<longrightarrow> validate_input env params s = Inr True) \<and>
       load_function env s = (Inr func, s1) \<and>
       invoke env func params vo s1 = (Inl e, s2) \<and>
       i < length (error_handlers (self s)) \<and>
       handler_matches (error_handlers (self s) ! i) e \<and>
       (\<forall>j<i. \<not> handler_matches (error_handlers (self s) ! j) e) \<and>
       r = error_handlers (self s) ! i \<and>
       s3 = logger INFO [Txt ''Handling error with strategy: '',
                         Txt (strategy_value (strategy r))] s2"
    then have l: "load_function env s = (Inr func, s1)"
      and iv: "invoke env func params vo s1 = (Inl e, s2)"
      and s3: "s3 = logger INFO [Txt ''Handling error with strategy: '',
                         Txt (strategy_value (strategy r))] s2" by simp_all
    from load_function_state[OF l] invoke_state[OF iv]
    have st: "error_handlers (self s2) = error_handlers (self s)" by simp
    from a have "find_handler (error_handlers (self s)) e = Some r"
      using find_handler_first[of i "error_handlers (self s)" e] by simp
    with st have f: "find_handler (error_handlers (self s2)) e = Some r" by simp
    have ex: "\<And>he. execute env params vi vo he s =
          (if he then handle_error env e params s2 else (Inl e, s2))"
      using a by (cases vi) (simp_all add: execute.simps)
    from handle_error_dispatch[OF f s3, of env params] ex
    show "execute env params vi vo False s = (Inl e, s2) \<and>
          (strategy r = RETRY_WITH_BACKOFF \<longrightarrow>
             execute env params vi vo True s = retry_with_backoff env params r s3) \<and>
          (strategy r = WAIT_AND_RETRY \<longrightarrow>
             execute env params vi vo True s =
               (case time_sleep (case wait_seconds r of None \<Rightarrow> 1
                                 | Some x \<Rightarrow> if x = 0 then 1 else x)
                       (case message_to_user r of None \<Rightarrow> s3
                        | Some m \<Rightarrow> if m = [] then s3 else logger INFO [Txt m] s3) of
                  Inl e' \<Rightarrow>
                    (Inl e', case message_to_user r of None \<Rightarrow> s3
                             | Some m \<Rightarrow> if m = [] then s3 else logger INFO [Txt m] s3)
                | Inr s5 \<Rightarrow> execute env params True True False s5)) \<and>
          (strategy r = PROMPT_USER \<longrightarrow>
             execute env params vi vo True s =
               (Inl e, logger WARNING
                         [Txt (case message_to_user r of None \<Rightarrow> exn_str e
                               | Some m \<Rightarrow> if m = [] then exn_str e else m)] s3)) \<and>
          (strategy r = FAIL \<or> strategy r = RETRY \<or> strategy r = ALTERNATE_TOOL \<longrightarrow>
             execute env params vi vo True s = (Inl e, s3))"
      by simp
  qed
qed

theorem first_matching_rule_else_reraise_witness:
  "find_handler (error_handlers (example_tool wait_first_rules))
     (Exn TimeoutError ''timeout after 30s'') =
     Some (error_handlers (example_tool wait_first_rules) ! 1) \<and>
   fst (execute (flaky_env True 1 (JArr [])) (JObj []) True True True
         (initial_state (example_tool [rate_limit_rule]) (0::nat))) =
     Inl (Exn TimeoutError ''timeout after 30s'') \<and>
   strategy (error_handlers (example_tool backoff_first_rules) ! 1) = RETRY_WITH_BACKOFF \<and>
   execute (flaky_env True 2 (JArr [])) (JObj []) True True True
       (initial_state (example_tool backoff_first_rules) (0::nat)) =
     retry_with_backoff (flaky_env True 2 (JArr [])) (JObj [])
       (error_handlers (example_tool backoff_first_rules) ! 1)
       (logger INFO [Txt ''Handling error with strategy: '', Txt ''retry_with_backoff'']
         (snd (invoke (flaky_env True 2 (JArr [])) ''search_database'' (JObj []) True
           (snd (load_function (flaky_env True 2 (JArr []))
              (initial_state (example_tool backoff_first_rules) (0::nat))))))) \<and>
   slept (trace (snd (execute (flaky_env True 2 (JArr [])) (JObj []) True True True
         (initial_state (example_tool backoff_first_rules) (0::nat))))) = [1 / 10] \<and>
   slept (trace (snd (execute (flaky_env True 1 (JArr [])) (JObj []) True True True
         (initial_state (example_tool wait_first_rules) (0::nat))))) = [1 / 2]"
proof -
  let ?e = "Exn TimeoutError ''timeout after 30s''"
  let ?hs = "error_handlers (example_tool wait_first_rules)"
  let ?env = "flaky_env True 1 (JArr [])"
  let ?s = "initial_state (example_tool [rate_limit_rule]) (0::nat)"
  let ?rate = "\<lparr> error_type = ''rate limit'', error_code = Some ''RateLimitError'',
         strategy = RETRY_WITH_BACKOFF, max_retries = None, backoff_ms = None,
         wait_seconds = None, fallback_tool = None, message_to_user = None \<rparr>"
  let ?wait = "\<lparr> error_type = ''timeout'', error_code = Some ''TimeoutError'',
         strategy = WAIT_AND_RETRY, max_retries = None, backoff_ms = None,
         wait_seconds = Some (1 / 2), fallback_tool = None,
         message_to_user = Some ''Service busy, retrying'' \<rparr>"
  let ?boff = "\<lparr> error_type = ''timeout'', error_code = None,
         strategy = RETRY_WITH_BACKOFF, max_retries = Some 3, backoff_ms = Some [100, 200],
         wait_seconds = None, fallback_tool = None, message_to_user = None \<rparr>"
  have hs: "?hs = [?rate, ?wait, ?boff]"
    by (simp add: wait_first_rules_def tool_simps rule_defs)
  have a: "\<exists>i<length ?hs. ?hs ! i = ?hs ! 1 \<and> handler_matches (?hs ! 1) ?e \<and>
             (\<forall>j<i. \<not> handler_matches (?hs ! j) ?e)"
    by (rule exI[of _ 1]) (simp add: hs handler_matches_def sublist_code)
  have v: "validate_input ?env (JObj []) ?s = Inr True"
    by (simp add: tool_simps rule_defs run_simps)
  obtain s1 where l: "load_function ?env ?s = (Inr ''search_database'', s1)"
    by (simp add: tool_simps rule_defs run_simps)
  obtain s2 where i: "invoke ?env ''search_database'' (JObj []) True s1 = (Inl ?e, s2)"
    using l by (auto simp: tool_simps rule_defs run_simps)
  have n: "\<forall>h \<in> set (error_handlers (self ?s)). \<not> handler_matches h ?e"
    by (simp add: tool_simps rule_defs initial_state_def handler_matches_def sublist_code)
  from first_matching_rule_else_reraise[where hs = ?hs and e = ?e and h = "?hs ! 1"
      and vi = True and env = ?env and params = "JObj []" and s = ?s and vo = True
      and he = True and ?func = "''search_database''" and ?s1.0 = s1 and ?s2.0 = s2]
    a v l i n
  have p12: "find_handler ?hs ?e = Some (?hs ! 1) \<and>
      fst (execute ?env (JObj []) True True True ?s) = Inl ?e"
    by blast
  let ?env2 = "flaky_env True 2 (JArr [])"
  let ?t = "initial_state (example_tool backoff_first_rules) (0::nat)"
  let ?bs = "error_handlers (self ?t)"
  let ?t1 = "snd (load_function ?env2 ?t)"
  let ?t2 = "snd (invoke ?env2 ''search_database'' (JObj []) True ?t1)"
  have bs: "?bs = [?rate, ?boff, ?wait]"
    by (simp add: backoff_first_rules_def tool_simps rule_defs initial_state_def)
  have bs': "error_handlers (example_tool backoff_first_rules) = ?bs"
    by (simp add: initial_state_def)
  have v2: "True \<longrightarrow> validate_input ?env2 (JObj []) ?t = Inr True"
    by (simp add: backoff_first_rules_def tool_simps rule_defs run_simps)
  have "fst (load_function ?env2 ?t) = Inr ''search_database''"
    by (simp add: backoff_first_rules_def tool_simps rule_defs run_simps)
  then have l2: "load_function ?env2 ?t = (Inr ''search_database'', ?t1)"
    by (simp add: prod_eq_iff)
  have "fst (invoke ?env2 ''search_database'' (JObj []) True ?t1) = Inl ?e"
    by (simp add: backoff_first_rules_def tool_simps rule_defs run_simps)
  then have i2: "invoke ?env2 ''search_database'' (JObj []) True ?t1 = (Inl ?e, ?t2)"
    by (simp add: prod_eq_iff)
  have m1: "handler_matches (?bs ! 1) ?e"
    by (simp add: bs handler_matches_def sublist_code)
  have m0: "\<forall>j<1. \<not> handler_matches (?bs ! j) ?e"
    by (simp add: bs handler_matches_def sublist_code)
  have len: "1 < length ?bs" by (simp add: bs)
  have st: "strategy (?bs ! 1) = RETRY_WITH_BACKOFF" by (simp add: bs)
  have s3: "logger INFO [Txt ''Handling error with strategy: '', Txt ''retry_with_backoff''] ?t2 =
      logger INFO [Txt ''Handling error with strategy: '',
                   Txt (strategy_value (strategy (?bs ! 1)))] ?t2"
    unfolding st by simp
  from first_matching_rule_else_reraise[where vi = True and env = ?env2 and params = "JObj []"
      and s = ?t and vo = True and ?func = "''search_database''" and ?s1.0 = ?t1
      and ?s2.0 = ?t2 and e = ?e and i = 1 and r = "?bs ! 1"
      and ?s3.0 = "logger INFO [Txt ''Handling error with strategy: '',
                                Txt ''retry_with_backoff''] ?t2",
      THEN conjunct2, THEN conjunct2, THEN conjunct2, THEN conjunct2]
    v2 l2 i2 len m1 m0 s3 st
  have d: "execute ?env2 (JObj []) True True True ?t =
     retry_with_backoff ?env2 (JObj []) (?bs ! 1)
       (logger INFO [Txt ''Handling error with strategy: '', Txt ''retry_with_backoff''] ?t2)"
    by blast
  from p12 st d run_backoff_first run_wait_first show ?thesis
    by (simp only: bs' simp_thms)
qed

text \<open>
  Claim C5. When the invocation fails and the first matching handler has the strategy
  \<open>wait_and_retry\<close> with a \<open>wait_seconds\<close> that is not negative, \<open>execute\<close>
  sleeps once, for \<open>wait_seconds\<close> (for one second when it is unset or zero), and its
  outcome is that of \<open>execute(params, handle_errors=False)\<close> from there: the input
  validation, \<open>_load_function\<close> (which returns the cached function when it is truthy),
  the call and the output validation, with no handler consulted. The callable is invoked
  at most once more and nothing else is slept.
\<close>

theorem wait_and_retry_retries_once:
  assumes "vi \<longrightarrow> validate_input env params s = Inr True"
    and "load_function env s = (Inr func, s1)"
    and "invoke env func params vo s1 = (Inl e, s2)"
    and "find_handler (error_handlers (self s)) e = Some h"
    and "strategy h = WAIT_AND_RETRY"
    and "\<forall>x. wait_seconds h = Some x \<longrightarrow> 0 \<le> x"
    and "d = (case wait_seconds h of None \<Rightarrow> 1 | Some x \<Rightarrow> if x = 0 then 1 else x)"
    and "s3 = emit (Slept d)
               (case message_to_user h of
                  None \<Rightarrow> logger INFO [Txt ''Handling error with strategy: '',
                                         Txt ''wait_and_retry''] s2
                | Some m \<Rightarrow>
                    if m = [] then logger INFO [Txt ''Handling error with strategy: '',
                                                Txt ''wait_and_retry''] s2
                    else logger INFO [Txt m]
                           (logger INFO [Txt ''Handling error with strategy: '',
                                         Txt ''wait_and_retry''] s2))"
  shows "execute env params vi vo True s = execute env params True True False s3 \<and>
         (execute env params True True False s3 =
            (case validate_input env params s3 of
               Inl e' \<Rightarrow> (Inl e', s3)
             | Inr _ \<Rightarrow>
                (case load_function env s3 of
                   (Inl e', s4) \<Rightarrow> (Inl e', s4)
                 | (Inr func', s4) \<Rightarrow> invoke env func' params True s4)) \<and>
          (attr_truthy env func \<longrightarrow>
             load_function env s3 = (Inr func, s3) \<and>
             execute env params True True False s3 =
               (case validate_input env params s3 of
                  Inl e' \<Rightarrow> (Inl e', s3)
                | Inr _ \<Rightarrow> invoke env func params True s3))) \<and>
         slept (trace (snd (execute env params vi vo True s))) = slept (trace s) @ [d] \<and>
         (invoked (trace (snd (execute env params vi vo True s))) =
            invoked (trace s) @ [params] \<or>
          invoked (trace (snd (execute env params vi vo True s))) =
            invoked (trace s) @ [params, params])"
proof -
  from load_function_state[OF assms(2)] invoke_state[OF assms(3)]
  have st: "error_handlers (self s2) = error_handlers (self s)"
    "slept (trace s2) = slept (trace s)" "invoked (trace s2) = invoked (trace s) @ [params]"
    "self s2 = self s1"
    by simp_all
  have ex: "execute env params vi vo True s = handle_error env e params s2"
    using assms(1-3) by (cases vi) (simp_all add: execute.simps)
  have he: "handle_error env e params s2 = execute env params True True False s3"
    using handle_error_wait_and_retry[of s2 e h env params] assms(4-8) st by simp
  have s3: "self s3 = self s1" "slept (trace s3) = slept (trace s) @ [d]"
    "invoked (trace s3) = invoked (trace s) @ [params]"
    using st assms(8)
    by (auto simp: emit_simps logger_simps slept_append invoked_append split: option.splits)
  with load_function_Inr_cached[OF assms(2)]
  have c3: "cached_function (self s3) = Some func" by simp
  have un: "execute env params True True False s3 =
            (case validate_input env params s3 of
               Inl e' \<Rightarrow> (Inl e', s3)
             | Inr _ \<Rightarrow>
                (case load_function env s3 of
                   (Inl e', s4) \<Rightarrow> (Inl e', s4)
                 | (Inr func', s4) \<Rightarrow> invoke env func' params True s4))"
    by (simp add: execute_unhandled)
  have tr: "attr_truthy env func \<longrightarrow>
             load_function env s3 = (Inr func, s3) \<and>
             execute env params True True False s3 =
               (case validate_input env params s3 of
                  Inl e' \<Rightarrow> (Inl e', s3)
                | Inr _ \<Rightarrow> invoke env func params True s3)"
  proof
    assume "attr_truthy env func"
    from load_function_cached[OF c3 this]
    have l3: "load_function env s3 = (Inr func, s3)" .
    then have "execute env params True True False s3 =
               (case validate_input env params s3 of
                  Inl e' \<Rightarrow> (Inl e', s3)
                | Inr _ \<Rightarrow> invoke env func params True s3)"
      by (simp add: execute_unhandled split: sum.splits)
    with l3 show "load_function env s3 = (Inr func, s3) \<and>
             execute env params True True False s3 =
               (case validate_input env params s3 of
                  Inl e' \<Rightarrow> (Inl e', s3)
                | Inr _ \<Rightarrow> invoke env func params True s3)" by (rule conjI)
  qed
  obtain r s' where r: "execute env params True True False s3 = (r, s')"
    by (cases "execute env params True True False s3")
  from execute_unhandled_state[OF r] s3
  have fin: "slept (trace s') = slept (trace s) @ [d]"
    "invoked (trace s') = invoked (trace s) @ [params] \<or>
     invoked (trace s') = invoked (trace s) @ [params, params]"
    by auto
  have e1: "execute env params vi vo True s = execute env params True True False s3"
    using ex he by simp
  from fin have f1: "slept (trace (snd (execute env params vi vo True s))) = slept (trace s) @ [d]"
    and f2: "invoked (trace (snd (execute env params vi vo True s))) =
            invoked (trace s) @ [params] \<or>
          invoked (trace (snd (execute env params vi vo True s))) =
            invoked (trace s) @ [params, params]"
    by (simp_all add: e1 r)
  from e1 un tr f1 f2 show ?thesis by blast
qed

theorem wait_and_retry_retries_once_witness:
  "fst (execute (flaky_env True 1 (JArr [])) (JObj []) True True True
         (initial_state (example_tool [wait_rule]) (0::nat))) = Inr (JArr []) \<and>
   slept (trace (snd (execute (flaky_env True 1 (JArr [])) (JObj []) True True True
         (initial_state (example_tool [wait_rule]) (0::nat))))) = [1 / 2] \<and>
   invoked (trace (snd (execute (flaky_env True 1 (JArr [])) (JObj []) True True True
         (initial_state (example_tool [wait_rule]) (0::nat))))) = [JObj [], JObj []]"
proof -
  let ?e = "Exn TimeoutError ''timeout after 30s''"
  let ?env = "flaky_env True 1 (JArr [])"
  let ?s = "initial_state (example_tool [wait_rule]) (0::nat)"
  let ?h = "\<lparr> error_type = ''timeout'', error_code = Some ''TimeoutError'',
         strategy = WAIT_AND_RETRY, max_retries = None, backoff_ms = None,
         wait_seconds = Some (1 / 2), fallback_tool = None,
         message_to_user = Some ''Service busy, retrying'' \<rparr>"
  have v: "True \<longrightarrow> validate_input ?env (JObj []) ?s = Inr True"
    by (simp add: tool_simps rule_defs run_simps)
  obtain s1 where l: "load_function ?env ?s = (Inr ''search_database'', s1)"
    and s1: "s1 = (emit (Imported ''shop.search'' ''search_database'') ?s)
               \<lparr>self := (example_tool [wait_rule])\<lparr>cached_function := Some ''search_database''\<rparr>\<rparr>"
    by (simp add: tool_simps rule_defs run_simps)
  obtain s2 where i: "invoke ?env ''search_database'' (JObj []) True s1 = (Inl ?e, s2)"
    and s2: "world s2 = 1" "self s2 = self s1"
    using s1 by (auto simp: tool_simps rule_defs run_simps)
  have f: "find_handler (error_handlers (self ?s)) ?e = Some ?h"
    by (simp add: tool_simps rule_defs initial_state_def handler_matches_def)
  have w: "\<forall>x. wait_seconds ?h = Some x \<longrightarrow> 0 \<le> x" by simp
  have st: "strategy ?h = WAIT_AND_RETRY" by simp
  note t = wait_and_retry_retries_once[OF v l i f st w refl refl]
  have sl: "slept (trace (snd (execute ?env (JObj []) True True True ?s))) =
      slept (trace ?s) @ [1 / 2]"
    using t[THEN conjunct2, THEN conjunct2, THEN conjunct1] by simp
  have r: "fst (execute ?env (JObj []) True True True ?s) = Inr (JArr []) \<and>
      invoked (trace (snd (execute ?env (JObj []) True True True ?s))) = [JObj [], JObj []]"
    by (simp add: tool_simps rule_defs run_simps)
  from sl r show ?thesis
    by (simp add: initial_state_def)
qed

section \<open>The retry loop\<close>

lemma retry_attempt_first:
  "retry_attempt env params n bo 0 s = execute env params True True False s"
  by (simp add: retry_attempt.simps)

lemma py_index_backoff:
  assumes "bo \<noteq> []" and "0 < i"
  shows "py_index bo (min (int i - 1) (int (length bo) - 1)) =
           Inr (bo ! min (i - 1) (length bo - 1))"
proof -
  from assms have len: "0 < length bo" by simp
  have eq: "nat (min (int i - 1) (int (length bo) - 1)) = min (i - 1) (length bo - 1)"
    using assms(2) len by (cases "i - 1 \<le> length bo - 1") (simp_all add: min_def, arith+)
  have nn: "\<not> min (int i - 1) (int (length bo) - 1) < 0"
    using assms(2) len by (simp add: min_def)
  have lt: "min (int i - 1) (int (length bo) - 1) < int (length bo)"
    using len by (simp add: min_def)
  have ge: "0 \<le> min (int i - 1) (int (length bo) - 1)"
    using assms(2) len by (simp add: min_def)
  show ?thesis
    unfolding py_index_def Let_def if_not_P[OF nn] if_P[OF conjI[OF ge lt]] eq ..
qed

lemma retry_attempt_later:
  assumes "bo \<noteq> []" and "0 < i" and "0 \<le> bo ! min (i - 1) (length bo - 1)"
  shows "retry_attempt env params n bo i s =
           execute env params True True False
             (emit (Slept (of_int (bo ! min (i - 1) (length bo - 1)) / 1000))
               (logger INFO [Txt ''Retry attempt '', Num (int i + 1), Txt ''/'', Num n,
                             Txt '' after '', Num (bo ! min (i - 1) (length bo - 1)),
                             Txt ''ms''] s))"
  using assms
  by (simp add: retry_attempt.simps py_index_backoff time_sleep_def Let_def)

lemma retry_attempt_state:
  assumes "bo \<noteq> []" and "\<forall>d \<in> set bo. 0 \<le> d"
    and "retry_attempt env params n bo i s = (r, s')"
  shows "slept (trace s') =
           slept (trace s) @
             (if 0 < i then [of_int (bo ! min (i - 1) (length bo - 1)) / 1000] else []) \<and>
         length (invoked (trace s')) \<le> length (invoked (trace s)) + 1"
proof (cases "0 < i")
  case False
  with assms(3) have "execute env params True True False s = (r, s')"
    by (simp add: retry_attempt_first)
  from execute_unhandled_state[OF this] False show ?thesis by auto
next
  case True
  from assms(1) have "min (i - 1) (length bo - 1) < length bo"
    by (cases bo) (auto simp: min_def)
  with assms(2) have nn: "0 \<le> bo ! min (i - 1) (length bo - 1)" by simp
  have "execute env params True True False
             (emit (Slept (of_int (bo ! min (i - 1) (length bo - 1)) / 1000))
               (logger INFO [Txt ''Retry attempt '', Num (int i + 1), Txt ''/'', Num n,
                             Txt '' after '', Num (bo ! min (i - 1) (length bo - 1)),
                             Txt ''ms''] s)) = (r, s')"
    using assms(3) unfolding retry_attempt_later[OF assms(1) True nn] .
  from execute_unhandled_state[OF this] True show ?thesis
    by (auto simp: emit_simps logger_simps slept_append invoked_append)
qed

lemma retry_loop_state:
  assumes "bo \<noteq> []" and "\<forall>d \<in> set bo. 0 \<le> d"
    and "retry_loop env params n bo k s = (r, s')"
  shows "\<exists>m. k \<le> m \<and> (m = k \<or> int m \<le> n) \<and>
           slept (trace s') =
             slept (trace s) @
               map (\<lambda>i. of_int (bo ! min (i - 1) (length bo - 1)) / 1000)
                 (filter (\<lambda>i. 0 < i) [k..<m]) \<and>
           length (invoked (trace s')) \<le> length (invoked (trace s)) + (m - k) \<and>
           (\<forall>e. r = Inl e \<longrightarrow> int m = n \<and> k < m)"
  using assms(3)
proof (induction "nat (n - int k)" arbitrary: k s)
  case 0
  then have "n \<le> int k" by simp
  with "0.prems" have "r = Inr JNull" "s' = s" by (simp_all add: retry_loop.simps)
  then show ?case by (intro exI[of _ k]) simp
next
  case (Suc x)
  then have lt: "\<not> n \<le> int k" by simp
  obtain ra sa where a: "retry_attempt env params n bo k s = (ra, sa)"
    by (cases "retry_attempt env params n bo k s")
  note st = retry_attempt_state[OF assms(1,2) a]
  have up: "[k..<Suc k] = [k]" by simp
  show ?case
  proof (cases ra)
    case (Inr result)
    with Suc.prems lt a have "r = Inr result" "s' = sa" by (simp_all add: retry_loop.simps)
    with st lt show ?thesis
      by (intro exI[of _ "Suc k"]) (auto simp: up)
  next
    case (Inl e)
    show ?thesis
    proof (cases "int k = n - 1")
      case True
      with Suc.prems lt a Inl
      have "r = Inl e"
        "s' = logger ERROR [Txt ''All '', Num n, Txt '' retry attempts failed''] sa"
        by (simp_all add: retry_loop.simps)
      with st True show ?thesis
        by (intro exI[of _ "Suc k"]) (auto simp: up logger_simps slept_append invoked_append)
    next
      case False
      with Suc.prems lt a Inl
      have rec: "retry_loop env params n bo (Suc k) sa = (r, s')"
        by (simp add: retry_loop.simps)
      from Suc.hyps(2) have "x = nat (n - int (Suc k))" by simp
      from Suc.hyps(1)[OF this rec] obtain m where
        m: "Suc k \<le> m" "m = Suc k \<or> int m \<le> n"
        "slept (trace s') = slept (trace sa) @
               map (\<lambda>i. of_int (bo ! min (i - 1) (length bo - 1)) / 1000)
                 (filter (\<lambda>i. 0 < i) [Suc k..<m])"
        "length (invoked (trace s')) \<le> length (invoked (trace sa)) + (m - Suc k)"
        "\<forall>e. r = Inl e \<longrightarrow> int m = n \<and> Suc k < m"
        by blast
      from m(1) have upt: "[k..<m] = k # [Suc k..<m]" by (simp add: upt_conv_Cons)
      from m st lt show ?thesis
        by (intro exI[of _ m]) (auto simp: upt)
    qed
  qed
qed

lemma filter_pos_upt: "filter (\<lambda>i. 0 < i) [0..<m] = [1..<m]"
proof (cases m)
  case 0
  then show ?thesis by simp
next
  case (Suc j)
  have "filter (\<lambda>i. 0 < i) [Suc 0..<Suc j] = [Suc 0..<Suc j]"
    by (rule filter_True) auto
  with Suc show ?thesis by (simp add: upt_conv_Cons del: upt_Suc)
qed

lemma retry_loop_first_success:
  assumes "int j < n" and "k \<le> j"
    and "\<forall>i. k \<le> i \<and> i < j \<longrightarrow> retry_attempt env params n bo i (ss i) = (Inl (es i), ss (Suc i))"
    and "retry_attempt env params n bo j (ss j) = (Inr result, s')"
  shows "retry_loop env params n bo k (ss k) = (Inr result, s')"
  using assms(2,3)
proof (induction "j - k" arbitrary: k)
  case 0
  then have "k = j" by simp
  with assms(1,4) show ?case by (simp add: retry_loop.simps)
next
  case (Suc x)
  then have kj: "k < j" by simp
  with Suc.prems have a: "retry_attempt env params n bo k (ss k) = (Inl (es k), ss (Suc k))"
    by simp
  from Suc.hyps(2) have x: "x = j - Suc k" by simp
  from kj have k': "Suc k \<le> j" by simp
  from Suc.prems(2) have
    "\<forall>i. Suc k \<le> i \<and> i < j \<longrightarrow> retry_attempt env params n bo i (ss i) = (Inl (es i), ss (Suc i))"
    by simp
  from Suc.hyps(1)[OF x k' this] a kj assms(1) show ?case
    by (simp add: retry_loop.simps)
qed

lemma retry_loop_all_fail:
  assumes "int k < n"
    and "\<forall>i. k \<le> i \<and> int i < n \<longrightarrow>
           retry_attempt env params n bo i (ss i) = (Inl (es i), ss (Suc i))"
  shows "retry_loop env params n bo k (ss k) =
           (Inl (es (nat n - 1)),
            logger ERROR [Txt ''All '', Num n, Txt '' retry attempts failed''] (ss (nat n)))"
  using assms
proof (induction "nat (n - int k)" arbitrary: k)
  case 0
  then show ?case by simp
next
  case (Suc x)
  from Suc.prems have a: "retry_attempt env params n bo k (ss k) = (Inl (es k), ss (Suc k))"
    by simp
  show ?case
  proof (cases "int k = n - 1")
    case True
    then have "nat n - 1 = k" "nat n = Suc k" by simp_all
    with a True Suc.prems(1) show ?thesis by (simp add: retry_loop.simps)
  next
    case False
    with Suc.prems(1) have lt: "int (Suc k) < n" by simp
    from Suc.hyps(2) have x: "x = nat (n - int (Suc k))" by simp
    from Suc.prems(2) have
      "\<forall>i. Suc k \<le> i \<and> int i < n \<longrightarrow>
           retry_attempt env params n bo i (ss i) = (Inl (es i), ss (Suc i))" by simp
    from Suc.hyps(1)[OF x lt this] a False Suc.prems(1) show ?thesis
      by (simp add: retry_loop.simps)
  qed
qed

lemmas rule_defs2 = rule_defs zero_retries_rule_def zero_wait_rule_def

lemma run_two_failures:
  "fst (execute (flaky_env True 2 (JArr [])) (JObj []) True True True
         (initial_state (example_tool [backoff_rule]) (0::nat))) = Inr (JArr []) \<and>
   slept (trace (snd (execute (flaky_env True 2 (JArr [])) (JObj []) True True True
         (initial_state (example_tool [backoff_rule]) (0::nat))))) = [1 / 10] \<and>
   invoked (trace (snd (execute (flaky_env True 2 (JArr [])) (JObj []) True True True
         (initial_state (example_tool [backoff_rule]) (0::nat))))) = [JObj [], JObj [], JObj []]"
  by (simp add: tool_simps rule_defs run_simps)

lemma run_three_failures:
  "fst (execute (flaky_env True 3 (JArr [])) (JObj []) True True True
         (initial_state (example_tool [backoff_rule]) (0::nat))) = Inr (JArr []) \<and>
   slept (trace (snd (execute (flaky_env True 3 (JArr [])) (JObj []) True True True
         (initial_state (example_tool [backoff_rule]) (0::nat))))) = [1 / 10, 1 / 5]"
  by (simp add: tool_simps rule_defs run_simps)

lemma run_four_failures:
  "fst (execute (flaky_env True 4 (JArr [])) (JObj []) True True True
         (initial_state (example_tool [backoff_rule]) (0::nat))) =
     Inl (Exn TimeoutError ''timeout after 30s'') \<and>
   invoked (trace (snd (execute (flaky_env True 4 (JArr [])) (JObj []) True True True
         (initial_state (example_tool [backoff_rule]) (0::nat))))) =
     [JObj [], JObj [], JObj [], JObj []]"
  by (simp add: tool_simps rule_defs run_simps)

lemma run_zero_retries:
  "fst (execute (flaky_env True 9 (JArr [])) (JObj []) True True True
         (initial_state (example_tool [zero_retries_rule]) (0::nat))) =
     Inl (Exn TimeoutError ''timeout after 30s'') \<and>
   slept (trace (snd (execute (flaky_env True 9 (JArr [])) (JObj []) True True True
         (initial_state (example_tool [zero_retries_rule]) (0::nat))))) = [1, 2] \<and>
   invoked (trace (snd (execute (flaky_env True 9 (JArr [])) (JObj []) True True True
         (initial_state (example_tool [zero_retries_rule]) (0::nat))))) =
     [JObj [], JObj [], JObj [], JObj []]"
  by (simp add: tool_simps rule_defs2 run_simps)

lemma run_zero_wait:
  "fst (execute (flaky_env True 1 (JArr [])) (JObj []) True True True
         (initial_state (example_tool [zero_wait_rule]) (0::nat))) = Inr (JArr []) \<and>
   slept (trace (snd (execute (flaky_env True 1 (JArr [])) (JObj []) True True True
         (initial_state (example_tool [zero_wait_rule]) (0::nat))))) = [1]"
  by (simp add: tool_simps rule_defs2 run_simps)

lemma retry_with_backoff_loop:
  "retry_with_backoff env params h s =
     retry_loop env params
       (case max_retries h of None \<Rightarrow> 3 | Some m \<Rightarrow> if m = 0 then 3 else m)
       (case backoff_ms h of None \<Rightarrow> [1000, 2000, 4000]
        | Some b \<Rightarrow> if b = [] then [1000, 2000, 4000] else b) 0 s"
  by (simp add: retry_with_backoff.simps num_or_def list_or_def split: option.splits)

text \<open>
  Claim C1, as amended. The retry loop runs after the invocation that failed, and its
  first attempt is not delayed. So with \<open>max_retries=3\<close> and
  \<open>backoff_ms=[100,200]\<close> a callable that fails on its first two invocations and
  succeeds on the third makes \<open>execute\<close> return the result after one delay, of
  100ms; the delays are 100ms and then 200ms for a callable that fails three times and
  succeeds on the fourth invocation. In general, with \<open>n\<close> the configured
  \<open>max_retries\<close> (3 when unset) and \<open>bo\<close> the configured \<open>backoff_ms\<close>
  (1000, 2000, 4000 when unset), none of them negative: the loop makes \<open>m \<le> n\<close>
  attempts, each a single \<open>execute(params, handle_errors=False)\<close>; attempt \<open>i > 0\<close>
  sleeps \<open>bo[min(i-1, len(bo)-1)]\<close> milliseconds first and attempt 0 does not sleep; the
  first attempt that succeeds gives the result; and when all \<open>n\<close> attempts fail, the
  failure of the last one is raised.
\<close>

theorem retry_with_backoff_schedule:
  assumes "n = (case max_retries h of None \<Rightarrow> 3 | Some m \<Rightarrow> if m = 0 then 3 else m)"
    and "bo = (case backoff_ms h of None \<Rightarrow> [1000, 2000, 4000]
               | Some b \<Rightarrow> if b = [] then [1000, 2000, 4000] else b)"
    and "\<forall>d \<in> set bo. 0 \<le> d"
  shows
    "(\<exists>m. (m = 0 \<or> int m \<le> n) \<and>
        slept (trace (snd (retry_with_backoff env params h s))) =
          slept (trace s) @
            map (\<lambda>i. of_int (bo ! min (i - 1) (length bo - 1)) / 1000) [1..<m] \<and>
        length (invoked (trace (snd (retry_with_backoff env params h s)))) \<le>
          length (invoked (trace s)) + m \<and>
        (\<forall>e. fst (retry_with_backoff env params h s) = Inl e \<longrightarrow> int m = n)) \<and>
     (\<forall>j ss es result s'.
        int j < n \<and>
        (\<forall>i<j. retry_attempt env params n bo i (ss i) = (Inl (es i), ss (Suc i))) \<and>
        retry_attempt env params n bo j (ss j) = (Inr result, s')
        \<longrightarrow> retry_with_backoff env params h (ss 0) = (Inr result, s')) \<and>
     (\<forall>ss es.
        0 < n \<and>
        (\<forall>i. int i < n \<longrightarrow> retry_attempt env params n bo i (ss i) = (Inl (es i), ss (Suc i)))
        \<longrightarrow> fst (retry_with_backoff env params h (ss 0)) = Inl (es (nat n - 1))) \<and>
     (\<forall>i s0. retry_attempt env params n bo i s0 =
        execute env params True True False
          (if 0 < i
           then emit (Slept (of_int (bo ! min (i - 1) (length bo - 1)) / 1000))
                  (logger INFO [Txt ''Retry attempt '', Num (int i + 1), Txt ''/'', Num n,
                                Txt '' after '', Num (bo ! min (i - 1) (length bo - 1)),
                                Txt ''ms''] s0)
           else s0)) \<and>
     fst (execute (flaky_env True 2 (JArr [])) (JObj []) True True True
           (initial_state (example_tool [backoff_rule]) (0::nat))) = Inr (JArr []) \<and>
     slept (trace (snd (execute (flaky_env True 2 (JArr [])) (JObj []) True True True
           (initial_state (example_tool [backoff_rule]) (0::nat))))) = [100 / 1000] \<and>
     fst (execute (flaky_env True 3 (JArr [])) (JObj []) True True True
           (initial_state (example_tool [backoff_rule]) (0::nat))) = Inr (JArr []) \<and>
     slept (trace (snd (execute (flaky_env True 3 (JArr [])) (JObj []) True True True
           (initial_state (example_tool [backoff_rule]) (0::nat))))) = [100 / 1000, 200 / 1000]"
proof -
  have ne: "bo \<noteq> []" using assms(2) by (auto split: option.splits)
  have loop: "\<And>s. retry_with_backoff env params h s = retry_loop env params n bo 0 s"
    using assms(1,2) by (simp add: retry_with_backoff_loop)
  obtain r s' where rs: "retry_loop env params n bo 0 s = (r, s')"
    by (cases "retry_loop env params n bo 0 s")
  from retry_loop_state[OF ne assms(3) rs]
  have c1: "\<exists>m. (m = 0 \<or> int m \<le> n) \<and>
        slept (trace (snd (retry_with_backoff env params h s))) =
          slept (trace s) @
            map (\<lambda>i. of_int (bo ! min (i - 1) (length bo - 1)) / 1000) [1..<m] \<and>
        length (invoked (trace (snd (retry_with_backoff env params h s)))) \<le>
          length (invoked (trace s)) + m \<and>
        (\<forall>e. fst (retry_with_backoff env params h s) = Inl e \<longrightarrow> int m = n)"
    by (simp add: loop rs filter_pos_upt del: upt_Suc) blast
  have c2: "\<forall>j ss es result s'.
        int j < n \<and>
        (\<forall>i<j. retry_attempt env params n bo i (ss i) = (Inl (es i), ss (Suc i))) \<and>
        retry_attempt env params n bo j (ss j) = (Inr result, s')
        \<longrightarrow> retry_with_backoff env params h (ss 0) = (Inr result, s')"
  proof (intro allI impI)
    fix j ss es result s'
    assume a: "int j < n \<and>
        (\<forall>i<j. retry_attempt env params n bo i (ss i) = (Inl (es i), ss (Suc i))) \<and>
        retry_attempt env params n bo j (ss j) = (Inr result, s')"
    then have "retry_loop env params n bo 0 (ss 0) = (Inr result, s')"
      by (intro retry_loop_first_success[where j = j and es = es]) auto
    then show "retry_with_backoff env params h (ss 0) = (Inr result, s')"
      by (simp add: loop)
  qed
  have c3: "\<forall>ss es.
        0 < n \<and>
        (\<forall>i. int i < n \<longrightarrow> retry_attempt env params n bo i (ss i) = (Inl (es i), ss (Suc i)))
        \<longrightarrow> fst (retry_with_backoff env params h (ss 0)) = Inl (es (nat n - 1))"
  proof (intro allI impI)
    fix ss es
    assume a: "0 < n \<and>
        (\<forall>i. int i < n \<longrightarrow> retry_attempt env params n bo i (ss i) = (Inl (es i), ss (Suc i)))"
    then have "retry_loop env params n bo 0 (ss 0) =
           (Inl (es (nat n - 1)),
            logger ERROR [Txt ''All '', Num n, Txt '' retry attempts failed''] (ss (nat n)))"
      by (intro retry_loop_all_fail) auto
    then show "fst (retry_with_backoff env params h (ss 0)) = Inl (es (nat n - 1))"
      by (simp add: loop)
  qed
  have c4: "\<forall>i s0. retry_attempt env params n bo i s0 =
        execute env params True True False
          (if 0 < i
           then emit (Slept (of_int (bo ! min (i - 1) (length bo - 1)) / 1000))
                  (logger INFO [Txt ''Retry attempt '', Num (int i + 1), Txt ''/'', Num n,
                                Txt '' after '', Num (bo ! min (i - 1) (length bo - 1)),
                                Txt ''ms''] s0)
           else s0)"
  proof (intro allI)
    fix i s0
    show "retry_attempt env params n bo i s0 =
        execute env params True True False
          (if 0 < i
           then emit (Slept (of_int (bo ! min (i - 1) (length bo - 1)) / 1000))
                  (logger INFO [Txt ''Retry attempt '', Num (int i + 1), Txt ''/'', Num n,
                                Txt '' after '', Num (bo ! min (i - 1) (length bo - 1)),
                                Txt ''ms''] s0)
           else s0)"
    proof (cases "0 < i")
      case True
      from ne have "min (i - 1) (length bo - 1) < length bo" by (cases bo) (auto simp: min_def)
      with assms(3) have "0 \<le> bo ! min (i - 1) (length bo - 1)" by simp
      from retry_attempt_later[OF ne True this] True show ?thesis by simp
    next
      case False
      then show ?thesis by (simp add: retry_attempt_first)
    qed
  qed
  from c1 c2 c3 c4 run_two_failures run_three_failures show ?thesis
    by (simp del: upt_Suc)
qed

text \<open>
  The run the claim describes: two failures, then success. One delay, not two.
\<close>

theorem two_failures_give_one_delay:
  "fst (execute (flaky_env True 2 (JArr [])) (JObj []) True True True
         (initial_state (example_tool [backoff_rule]) (0::nat))) = Inr (JArr []) \<and>
   slept (trace (snd (execute (flaky_env True 2 (JArr [])) (JObj []) True True True
         (initial_state (example_tool [backoff_rule]) (0::nat))))) = [100 / 1000] \<and>
   slept (trace (snd (execute (flaky_env True 2 (JArr [])) (JObj []) True True True
         (initial_state (example_tool [backoff_rule]) (0::nat))))) \<noteq> [100 / 1000, 200 / 1000]"
  using run_two_failures by simp

theorem retry_with_backoff_schedule_witness:
  "fst (retry_with_backoff (flaky_env True 4 (JArr [])) (JObj [])
          (hd (error_handlers (example_tool [backoff_rule])))
          (initial_state (example_tool [backoff_rule]) (0::nat))) =
     Inl (Exn TimeoutError ''timeout after 30s'') \<and>
   slept (trace (snd (retry_with_backoff (flaky_env True 4 (JArr [])) (JObj [])
          (hd (error_handlers (example_tool [backoff_rule])))
          (initial_state (example_tool [backoff_rule]) (0::nat))))) = [100 / 1000, 200 / 1000]"
proof -
  let ?h = "hd (error_handlers (example_tool [backoff_rule]))"
  let ?env = "flaky_env True 4 (JArr [])"
  let ?s = "initial_state (example_tool [backoff_rule]) (0::nat)"
  have h: "?h = \<lparr> error_type = ''timeout'', error_code = None,
         strategy = RETRY_WITH_BACKOFF, max_retries = Some 3, backoff_ms = Some [100, 200],
         wait_seconds = None, fallback_tool = None, message_to_user = None \<rparr>"
    by (simp add: tool_simps rule_defs)
  have n: "(3::int) = (case max_retries ?h of None \<Rightarrow> 3 | Some m \<Rightarrow> if m = 0 then 3 else m)"
    by (simp add: h)
  have bo: "[100, 200] = (case backoff_ms ?h of None \<Rightarrow> [1000, 2000, 4000]
               | Some b \<Rightarrow> if b = [] then [1000, 2000, 4000] else b)"
    by (simp add: h)
  have nn: "\<forall>d \<in> set [100, 200::int]. 0 \<le> d" by simp
  have e: "fst (retry_with_backoff ?env (JObj []) ?h ?s) =
     Inl (Exn TimeoutError ''timeout after 30s'')"
    by (simp add: h tool_simps rule_defs run_simps Let_def)
  from retry_with_backoff_schedule[OF n bo nn, where env = ?env and params = "JObj []"
      and s = ?s, THEN conjunct1] e
  obtain m where m: "int m = 3"
    and sl: "slept (trace (snd (retry_with_backoff ?env (JObj []) ?h ?s))) =
          slept (trace ?s) @
            map (\<lambda>i. of_int ([100, 200::int] ! min (i - 1) (length [100, 200::int] - 1)) / 1000)
              [1..<m]"
    by blast
  from m have "m = 3" by simp
  then have "[1..<m] = [1, 2]" by (simp add: upt_rec)
  with sl e show ?thesis by (simp add: initial_state_def)
qed

text \<open>
  Claim C10. A \<open>max_retries\<close> of zero and an empty \<open>backoff_ms\<close> are falsy, so
  \<open>_retry_with_backoff\<close> behaves as if they were unset, that is as with 3 and with
  1000, 2000, 4000; a handler with \<open>wait_seconds=0\<close> makes \<open>_handle_error\<close> sleep
  one second before its single retry. With \<open>max_retries=0\<close>, an empty
  \<open>backoff_ms\<close> and a callable that always fails, the callable is invoked four times
  (once, and three attempts of the loop) with sleeps of 1s and 2s.
\<close>

theorem zero_is_treated_as_unset:
  "retry_with_backoff env params (h\<lparr>max_retries := Some 0\<rparr>) s =
     retry_with_backoff env params (h\<lparr>max_retries := None\<rparr>) s \<and>
   retry_with_backoff env params (h\<lparr>max_retries := Some 0\<rparr>) s =
     retry_with_backoff env params (h\<lparr>max_retries := Some 3\<rparr>) s \<and>
   retry_with_backoff env params (h\<lparr>backoff_ms := Some []\<rparr>) s =
     retry_with_backoff env params (h\<lparr>backoff_ms := None\<rparr>) s \<and>
   retry_with_backoff env params (h\<lparr>backoff_ms := Some []\<rparr>) s =
     retry_with_backoff env params (h\<lparr>backoff_ms := Some [1000, 2000, 4000]\<rparr>) s \<and>
   (find_handler (error_handlers (self s)) e = Some h \<and> strategy h = WAIT_AND_RETRY \<and>
    wait_seconds h = Some 0
    \<longrightarrow> (\<exists>s3. handle_error env e params s = execute env params True True False s3 \<and>
              slept (trace s3) = slept (trace s) @ [1]) \<and>
        slept (trace (snd (handle_error env e params s))) = slept (trace s) @ [1]) \<and>
   fst (execute (flaky_env True 9 (JArr [])) (JObj []) True True True
         (initial_state (example_tool [zero_retries_rule]) (0::nat))) =
     Inl (Exn TimeoutError ''timeout after 30s'') \<and>
   slept (trace (snd (execute (flaky_env True 9 (JArr [])) (JObj []) True True True
         (initial_state (example_tool [zero_retries_rule]) (0::nat))))) = [1, 2] \<and>
   invoked (trace (snd (execute (flaky_env True 9 (JArr [])) (JObj []) True True True
         (initial_state (example_tool [zero_retries_rule]) (0::nat))))) =
     [JObj [], JObj [], JObj [], JObj []]"
proof -
  have w: "find_handler (error_handlers (self s)) e = Some h \<and> strategy h = WAIT_AND_RETRY \<and>
    wait_seconds h = Some 0
    \<longrightarrow> (\<exists>s3. handle_error env e params s = execute env params True True False s3 \<and>
              slept (trace s3) = slept (trace s) @ [1]) \<and>
        slept (trace (snd (handle_error env e params s))) = slept (trace s) @ [1]"
  proof (intro impI)
    assume a: "find_handler (error_handlers (self s)) e = Some h \<and>
      strategy h = WAIT_AND_RETRY \<and> wait_seconds h = Some 0"
    let ?s3 = "emit (Slept 1)
               (case message_to_user h of
                  None \<Rightarrow> logger INFO [Txt ''Handling error with strategy: '',
                                         Txt ''wait_and_retry''] s
                | Some m \<Rightarrow>
                    if m = [] then logger INFO [Txt ''Handling error with strategy: '',
                                                Txt ''wait_and_retry''] s
                    else logger INFO [Txt m]
                           (logger INFO [Txt ''Handling error with strategy: '',
                                         Txt ''wait_and_retry''] s))"
    from a handle_error_wait_and_retry[of s e h env params]
    have he: "handle_error env e params s = execute env params True True False ?s3"
      by simp
    have s3: "slept (trace ?s3) = slept (trace s) @ [1]"
      by (auto simp: emit_simps logger_simps slept_append split: option.splits)
    obtain r s' where r: "execute env params True True False ?s3 = (r, s')"
      by (cases "execute env params True True False ?s3")
    from execute_unhandled_state[OF r] s3
    have sl: "slept (trace s') = slept (trace s) @ [1]" by simp
    have ex: "\<exists>s3. handle_error env e params s = execute env params True True False s3 \<and>
              slept (trace s3) = slept (trace s) @ [1]"
      using he s3 by (intro exI[of _ ?s3] conjI)
    have fin: "slept (trace (snd (handle_error env e params s))) = slept (trace s) @ [1]"
      using sl by (simp add: he r)
    from ex fin
    show "(\<exists>s3. handle_error env e params s = execute env params True True False s3 \<and>
              slept (trace s3) = slept (trace s) @ [1]) \<and>
        slept (trace (snd (handle_error env e params s))) = slept (trace s) @ [1]"
      by (rule conjI)
  qed
  show ?thesis
    using w run_zero_retries
    by (simp add: retry_with_backoff_loop)
qed

theorem zero_is_treated_as_unset_witness:
  "wait_seconds (hd (error_handlers (example_tool [zero_wait_rule]))) = Some 0 \<and>
   slept (trace (snd (handle_error (flaky_env True 1 (JArr [])) (Exn TimeoutError ''timeout after 30s'')
      (JObj []) (initial_state (example_tool [zero_wait_rule]) (1::nat))))) = [1]"
proof -
  let ?h = "hd (error_handlers (example_tool [zero_wait_rule]))"
  let ?s = "initial_state (example_tool [zero_wait_rule]) (1::nat)"
  let ?e = "Exn TimeoutError ''timeout after 30s''"
  have h: "?h = \<lparr> error_type = ''timeout'', error_code = None,
         strategy = WAIT_AND_RETRY, max_retries = None, backoff_ms = None,
         wait_seconds = Some 0, fallback_tool = None, message_to_user = None \<rparr>"
    by (simp add: tool_simps rule_defs2)
  have f: "find_handler (error_handlers (self ?s)) ?e = Some ?h"
    by (simp add: tool_simps rule_defs2 initial_state_def handler_matches_def sublist_code)
  have st: "strategy ?h = WAIT_AND_RETRY" and w: "wait_seconds ?h = Some 0"
    by (simp_all add: h)
  from zero_is_treated_as_unset[where s = ?s and e = ?e and h = ?h
      and env = "flaky_env True 1 (JArr [])" and params = "JObj []",
      THEN conjunct2, THEN conjunct2, THEN conjunct2, THEN conjunct2, THEN conjunct1] f st w
  have "slept (trace (snd (handle_error (flaky_env True 1 (JArr [])) ?e (JObj []) ?s))) =
      slept (trace ?s) @ [1]"
    by blast
  with w show ?thesis by (simp add: initial_state_def)
qed

section \<open>Resolution of the endpoint\<close>
















section \<open>Search in the registry\<close>



























end
